theory Spec2Isabelle
  imports Main
begin

section \<open>Values and exceptions of the proxy\<close>

text \<open>
  The proxy of \<^verbatim>\<open>mcp_factory/server.py\<close> works on the values that
  \<^verbatim>\<open>json.loads\<close> produces: registry entries, decoded frames and result
  payloads are all dynamically typed. A JSON object keeps its keys in insertion order,
  so it is an association list. Strings are byte strings (UTF-8).
\<close>

datatype pyfloat = Finite int int | Infinite bool | NaN

datatype json =
    JNull
  | JBool bool
  | JInt int
  | JFloat pyfloat
  | JStr string
  | JArr "json list"
  | JObj "(string \<times> json) list"

text \<open>
  The exceptions the code can meet. All of them are subclasses of \<^verbatim>\<open>Exception\<close>;
  \<open>TimeoutError\<close> is \<^verbatim>\<open>asyncio.TimeoutError\<close>, \<open>ProcessLookupError\<close> is what
  \<^verbatim>\<open>proc.terminate()\<close> and \<^verbatim>\<open>proc.kill()\<close> raise once the child has exited,
  \<open>OSError\<close> stands for a failed spawn, a broken pipe or a failed file operation,
  \<open>HTTPError\<close> for what the HTTP client raises, \<open>OtherException\<close> for any other
  one, by its name.
\<close>

datatype pyexc =
    KeyError string
  | TypeError
  | AttributeError
  | JSONDecodeError
  | UnicodeDecodeError
  | TimeoutError
  | ProcessLookupError
  | OSError
  | HTTPError
  | OtherException string

text \<open>
  Library functions whose text is not part of the repository are parameters. The three
  decoders are kept apart, since they are not the same function:
  \<^item> \<open>json_loads\<close> is \<^verbatim>\<open>json.loads\<close> on a \<^verbatim>\<open>str\<close> (the arguments string);
  \<^item> \<open>json_loads_bytes\<close> is \<^verbatim>\<open>json.loads\<close> on the \<^verbatim>\<open>bytes\<close> of a line read from
    the child, which first detects the encoding and decodes it;
  \<^item> \<open>response_json\<close> is \<^verbatim>\<open>resp.json()\<close> of the HTTP client on the response body.

  Each returns the decoded value or the exception it raises. \<open>json_dumps\<close> is
  \<^verbatim>\<open>json.dumps\<close>, \<open>float_repr\<close> is \<^verbatim>\<open>repr\<close> of a float and \<open>exc_str\<close> is \<^verbatim>\<open>str\<close>
  of an exception.
\<close>

record pylib =
  json_loads :: "string \<Rightarrow> pyexc + json"
  json_loads_bytes :: "string \<Rightarrow> pyexc + json"
  response_json :: "string \<Rightarrow> pyexc + json"
  json_dumps :: "json \<Rightarrow> string"
  float_repr :: "pyfloat \<Rightarrow> string"
  exc_str :: "pyexc \<Rightarrow> string"

definition bindE :: "pyexc + 'a \<Rightarrow> ('a \<Rightarrow> pyexc + 'b) \<Rightarrow> pyexc + 'b" where
  "bindE m f = (case m of Inl e \<Rightarrow> Inl e | Inr x \<Rightarrow> f x)"

fun mapE :: "('a \<Rightarrow> pyexc + 'b) \<Rightarrow> 'a list \<Rightarrow> pyexc + 'b list" where
  "mapE f [] = Inr []"
| "mapE f (x # xs) = bindE (f x) (\<lambda>y. bindE (mapE f xs) (\<lambda>ys. Inr (y # ys)))"

text \<open>\<^verbatim>\<open>bool(v)\<close>: the truth value Python gives a decoded value.\<close>

fun py_truthy :: "json \<Rightarrow> bool" where
  "py_truthy JNull = False"
| "py_truthy (JBool b) = b"
| "py_truthy (JInt n) = (n \<noteq> 0)"
| "py_truthy (JFloat (Finite m e)) = (m \<noteq> 0)"
| "py_truthy (JFloat _) = True"
| "py_truthy (JStr s) = (s \<noteq> [])"
| "py_truthy (JArr xs) = (xs \<noteq> [])"
| "py_truthy (JObj kvs) = (kvs \<noteq> [])"

text \<open>\<^verbatim>\<open>sep.join(parts)\<close> on strings.\<close>

fun str_join :: "string \<Rightarrow> string list \<Rightarrow> string" where
  "str_join sep [] = []"
| "str_join sep [x] = x"
| "str_join sep (x # y # ys) = x @ sep @ str_join sep (y # ys)"

text \<open>
  \<^verbatim>\<open>repr(v)\<close> of a decoded value. An integer is written in decimal. A string is put in
  single quotes, or in double quotes when it holds a single quote and no double quote;
  the backslash and the chosen quote are escaped, tab, newline and carriage return are
  written \<^verbatim>\<open>\t\<close>, \<^verbatim>\<open>\n\<close>, \<^verbatim>\<open>\r\<close>, any other control character as \<^verbatim>\<open>\xNN\<close>. Bytes
  beyond ASCII are copied, that is, the code points they encode are taken to be
  printable. A list and a dict are written with the \<^verbatim>\<open>repr\<close> of their members.
\<close>

definition hex_digit :: "nat \<Rightarrow> char" where
  "hex_digit n = ''0123456789abcdef'' ! n"

definition escape_char :: "char \<Rightarrow> char \<Rightarrow> string" where
  "escape_char quote c =
     (if c = CHR 0x5C then [CHR 0x5C, CHR 0x5C]
      else if c = quote then [CHR 0x5C, quote]
      else if c = CHR 0x09 then [CHR 0x5C, CHR ''t'']
      else if c = CHR 0x0A then [CHR 0x5C, CHR ''n'']
      else if c = CHR 0x0D then [CHR 0x5C, CHR ''r'']
      else if (of_char c :: nat) < 32 \<or> (of_char c :: nat) = 127
      then [CHR 0x5C, CHR ''x'', hex_digit ((of_char c :: nat) div 16),
            hex_digit ((of_char c :: nat) mod 16)]
      else [c])"

fun has_char :: "char \<Rightarrow> string \<Rightarrow> bool" where
  "has_char c [] = False"
| "has_char c (d # ds) = (c = d \<or> has_char c ds)"

definition repr_quote :: "string \<Rightarrow> char" where
  "repr_quote s =
     (if has_char (CHR 0x27) s \<and> \<not> has_char (CHR 0x22) s then CHR 0x22 else CHR 0x27)"

definition str_repr :: "string \<Rightarrow> string" where
  "str_repr s = [repr_quote s] @ concat (map (escape_char (repr_quote s)) s) @ [repr_quote s]"

fun dec_digits :: "nat \<Rightarrow> string" where
  "dec_digits n =
     (if n < 10 then [''0123456789'' ! n]
      else dec_digits (n div 10) @ [''0123456789'' ! (n mod 10)])"

definition int_repr :: "int \<Rightarrow> string" where
  "int_repr i = (if i < 0 then ''-'' @ dec_digits (nat (- i)) else dec_digits (nat i))"

fun py_repr :: "pylib \<Rightarrow> json \<Rightarrow> string" where
  "py_repr L JNull = ''None''"
| "py_repr L (JBool b) = (if b then ''True'' else ''False'')"
| "py_repr L (JInt i) = int_repr i"
| "py_repr L (JFloat x) = float_repr L x"
| "py_repr L (JStr s) = str_repr s"
| "py_repr L (JArr xs) = ''['' @ str_join '', '' (map (py_repr L) xs) @ '']''"
| "py_repr L (JObj kvs) =
     ''{'' @ str_join '', '' (map (\<lambda>kv. str_repr (fst kv) @ '': '' @ py_repr L (snd kv)) kvs)
     @ ''}''"

text \<open>\<^verbatim>\<open>str(v)\<close>, as an f-string renders a value: a string is itself, anything else its
  \<^verbatim>\<open>repr\<close>.\<close>

fun py_str :: "pylib \<Rightarrow> json \<Rightarrow> string" where
  "py_str L (JStr s) = s"
| "py_str L v = py_repr L v"

text \<open>\<^verbatim>\<open>v[key]\<close> with a string key.\<close>

fun py_getitem :: "json \<Rightarrow> string \<Rightarrow> pyexc + json" where
  "py_getitem (JObj kvs) k = (case map_of kvs k of None \<Rightarrow> Inl (KeyError k) | Some v \<Rightarrow> Inr v)"
| "py_getitem _ k = Inl TypeError"

text \<open>\<^verbatim>\<open>v.get(key, default)\<close>: only a dict has the method.\<close>

fun py_get :: "json \<Rightarrow> string \<Rightarrow> json \<Rightarrow> pyexc + json" where
  "py_get (JObj kvs) k d = (case map_of kvs k of None \<Rightarrow> Inr d | Some v \<Rightarrow> Inr v)"
| "py_get _ k d = Inl AttributeError"

text \<open>\<^verbatim>\<open>key in v\<close>: a key of a dict, an element of a list, a substring of a string.\<close>

fun is_substring :: "string \<Rightarrow> string \<Rightarrow> bool" where
  "is_substring k [] = (k = [])"
| "is_substring k (c # cs) = (take (length k) (c # cs) = k \<or> is_substring k cs)"

fun py_contains :: "string \<Rightarrow> json \<Rightarrow> pyexc + bool" where
  "py_contains k (JObj kvs) = Inr (map_of kvs k \<noteq> None)"
| "py_contains k (JArr xs) = Inr (JStr k \<in> set xs)"
| "py_contains k (JStr s) = Inr (is_substring k s)"
| "py_contains k _ = Inl TypeError"

text \<open>\<^verbatim>\<open>for x in v\<close>: the elements of a list, the keys of a dict, the characters of a string.\<close>

fun py_iter :: "json \<Rightarrow> pyexc + json list" where
  "py_iter (JArr xs) = Inr xs"
| "py_iter (JObj kvs) = Inr (map (\<lambda>kv. JStr (fst kv)) kvs)"
| "py_iter (JStr s) = Inr (map (\<lambda>c. JStr [c]) s)"
| "py_iter _ = Inl TypeError"

text \<open>\<^verbatim>\<open>v.items()\<close>.\<close>

fun py_items :: "json \<Rightarrow> pyexc + (string \<times> json) list" where
  "py_items (JObj kvs) = Inr kvs"
| "py_items _ = Inl AttributeError"

text \<open>\<^verbatim>\<open>sep.join(parts)\<close> on values that must all be strings.\<close>

fun as_str :: "json \<Rightarrow> pyexc + string" where
  "as_str (JStr s) = Inr s"
| "as_str _ = Inl TypeError"

definition py_join :: "string \<Rightarrow> json list \<Rightarrow> pyexc + string" where
  "py_join sep parts = bindE (mapE as_str parts) (\<lambda>ss. Inr (str_join sep ss))"

section \<open>Result formatters\<close>

text \<open>The dash of the parameter lines is U+2014, three bytes in UTF-8.\<close>

definition em_dash :: string where
  "em_dash = [CHR 0xE2, CHR 0x80, CHR 0x94]"

text \<open>One pass of the inner loop of \<^verbatim>\<open>_format_tools\<close>: the line of one parameter.\<close>

definition format_param :: "pylib \<Rightarrow> string \<times> json \<Rightarrow> pyexc + string" where
  "format_param L p =
     bindE (py_get (snd p) ''type'' (JStr ''any'')) (\<lambda>ptype.
     bindE (py_get (snd p) ''description'' (JStr '''')) (\<lambda>pdesc.
     Inr (''    '' @ fst p @ '': '' @ py_str L ptype
          @ (if py_truthy pdesc then '' '' @ em_dash @ '' '' @ py_str L pdesc else ''''))))"

text \<open>One pass of the outer loop: the lines one tool adds to \<^verbatim>\<open>lines\<close>.\<close>

definition format_tool :: "pylib \<Rightarrow> json \<Rightarrow> pyexc + string list" where
  "format_tool L tool =
     bindE (py_getitem tool ''name'') (\<lambda>name.
     bindE (py_get tool ''description'' (JStr '''')) (\<lambda>desc.
     bindE (py_get tool ''inputSchema'' (JObj [])) (\<lambda>schema.
     bindE (py_get schema ''properties'' (JObj [])) (\<lambda>props.
     bindE (py_items props) (\<lambda>items.
     bindE (mapE (format_param L) items) (\<lambda>params.
     Inr ((''  '' @ py_str L name @ '': '' @ py_str L desc) # params)))))))"

definition format_tools :: "pylib \<Rightarrow> json \<Rightarrow> pyexc + string" where
  "format_tools L result =
     bindE (py_get result ''tools'' (JArr [])) (\<lambda>tools.
     if \<not> py_truthy tools then Inr ''No tools found on this server.''
     else
       bindE (py_iter tools) (\<lambda>ts.
       bindE (mapE (format_tool L) ts) (\<lambda>liness.
       Inr (''Available tools:'' @ [CHR 0x0A] @ str_join [CHR 0x0A] (concat liness)))))"

text \<open>One pass of the loop of \<^verbatim>\<open>_format_call_result\<close>: what one item appends to \<^verbatim>\<open>parts\<close>.\<close>

definition format_item :: "pylib \<Rightarrow> json \<Rightarrow> pyexc + json" where
  "format_item L item =
     bindE (py_get item ''type'' JNull) (\<lambda>kind.
     if kind = JStr ''text'' then py_getitem item ''text''
     else Inr (JStr (json_dumps L item)))"

definition format_call_result :: "pylib \<Rightarrow> json \<Rightarrow> pyexc + string" where
  "format_call_result L result =
     bindE (py_get result ''content'' (JArr [])) (\<lambda>content.
     bindE (py_iter content) (\<lambda>items.
     bindE (mapE (format_item L) items) (\<lambda>parts.
     if parts \<noteq> [] then py_join [CHR 0x0A] parts else Inr ''(empty response)'')))"

section \<open>Effects\<close>

text \<open>
  What a call does to the outside is a trace of events, each with the outcome the
  outside gave it. The outcomes are the \<open>world\<close>: one field for each point where the
  code waits for the file system, the child process, the HTTP endpoint or the runtime.
  \<^item> \<open>Spawn cmd env ok\<close>: \<^verbatim>\<open>create_subprocess_exec(*cmd, env=env)\<close> was called, and
    whether a child was started;
  \<^item> \<open>Write msg out\<close>: a frame was written to the child's input and \<^verbatim>\<open>drain()\<close> was
    awaited: it came back, raised, or never came back (there is no timeout on it);
  \<^item> \<open>Read t out\<close>: a line was awaited from the child's output for \<open>t\<close> seconds, with
    the line read or the exception raised (\<open>TimeoutError\<close> when none came in time);
  \<^item> \<open>Terminate sent\<close>, \<open>Kill sent\<close>: the two signals; \<open>sent\<close> is false when the
    child had already exited, and then the call raises \<open>ProcessLookupError\<close>;
  \<^item> \<open>Wait t exited\<close>: the exit of the child was awaited for \<open>t\<close> seconds, and
    whether it exited in that time;
  \<^item> \<open>HttpPost url headers body\<close>: the request posted by the remote transport;
  \<^item> \<open>Audit action details\<close>: a line appended to the audit log.

  Creating the directories and reading the registry file are not recorded in the trace.
  The world of a call is fixed in advance; since the requests of a call are determined
  by its arguments, this loses no behaviour of a child or endpoint that answers
  depending on what it was sent.
\<close>

datatype write_outcome = Drained | WriteRaised pyexc | Blocked

datatype event =
    Spawn "json list" "(string \<times> json) list" bool
  | Write string write_outcome
  | Read nat "pyexc + string"
  | Terminate bool
  | Wait nat bool
  | Kill bool
  | HttpPost string "(string \<times> string) list" json
  | Audit string string

text \<open>
  \<open>registry_file\<close> is \<open>None\<close> when the registry file does not exist; otherwise it holds
  what \<^verbatim>\<open>json.loads(REGISTRY_FILE.read_text())\<close> gives: the decoded content, or the
  exception of the read or of the decoding. \<open>ensure_dirs_error\<close> is the exception, if
  any, of creating the directories; \<open>audit_error\<close> the exception, if any, of what
  \<^verbatim>\<open>_audit\<close> does after that: stamping, opening the log, or writing the line.
\<close>

record world =
  environ :: "(string \<times> string) list"
  ensure_dirs_error :: "pyexc option"
  registry_file :: "(pyexc + json) option"
  audit_error :: "pyexc option"
  spawn_error :: "pyexc option"
  init_write :: write_outcome
  init_line :: "pyexc + string"
  notify_write :: write_outcome
  request_write :: write_outcome
  response_line :: "pyexc + string"
  exited_before_terminate :: bool
  exits_in_grace :: bool
  exited_before_kill :: bool
  httpx_installed :: bool
  http_response :: "pyexc + string"

text \<open>A computation returns a value, raises an exception, or never comes back.\<close>

datatype 'a outcome = Return 'a | Raise pyexc | Hang

type_synonym 'a io = "'a outcome \<times> event list"

definition ret :: "'a \<Rightarrow> 'a io" where
  "ret x = (Return x, [])"

definition lift :: "pyexc + 'a \<Rightarrow> 'a io" where
  "lift r = ((case r of Inl e \<Rightarrow> Raise e | Inr x \<Rightarrow> Return x), [])"

definition bindIO :: "'a io \<Rightarrow> ('a \<Rightarrow> 'b io) \<Rightarrow> 'b io" where
  "bindIO m f =
     (case fst m of
        Return x \<Rightarrow> (fst (f x), snd m @ snd (f x))
      | Raise e \<Rightarrow> (Raise e, snd m)
      | Hang \<Rightarrow> (Hang, snd m))"

text \<open>\<^verbatim>\<open>try: m finally: c\<close> runs \<open>c\<close> after \<open>m\<close> however \<open>m\<close> ended, if it ended; what
  \<open>c\<close> raises replaces the outcome of \<open>m\<close>.\<close>

definition try_finally :: "'a io \<Rightarrow> unit io \<Rightarrow> 'a io" where
  "try_finally m c =
     (case fst m of
        Hang \<Rightarrow> (Hang, snd m)
      | _ \<Rightarrow> ((case fst c of Return u \<Rightarrow> fst m | Raise e \<Rightarrow> Raise e | Hang \<Rightarrow> Hang),
              snd m @ snd c))"

text \<open>\<^verbatim>\<open>try: m except ... as e: h e\<close>.\<close>

definition try_except :: "'a io \<Rightarrow> (pyexc \<Rightarrow> 'a io) \<Rightarrow> 'a io" where
  "try_except m h =
     (case fst m of
        Raise e \<Rightarrow> (fst (h e), snd m @ snd (h e))
      | _ \<Rightarrow> m)"

section \<open>Registry and audit log\<close>

definition ensure_dirs :: "world \<Rightarrow> pyexc + unit" where
  "ensure_dirs w = (case ensure_dirs_error w of None \<Rightarrow> Inr () | Some e \<Rightarrow> Inl e)"

definition load_registry :: "world \<Rightarrow> pyexc + json" where
  "load_registry w =
     bindE (ensure_dirs w) (\<lambda>u.
     case registry_file w of
       None \<Rightarrow> Inr (JObj [(''servers'', JObj [])])
     | Some content \<Rightarrow> content)"

definition audit :: "world \<Rightarrow> string \<Rightarrow> string \<Rightarrow> unit io" where
  "audit w action details =
     bindIO (lift (ensure_dirs w)) (\<lambda>u.
     case audit_error w of
       None \<Rightarrow> (Return (), [Audit action details])
     | Some e \<Rightarrow> (Raise e, []))"

section \<open>Protocol helpers\<close>

text \<open>\<^verbatim>\<open>{**a, **b}\<close>: the keys of \<open>a\<close> in their order with the values of \<open>b\<close> on top,
  then the new keys of \<open>b\<close>.\<close>

definition dict_merge ::
  "(string \<times> json) list \<Rightarrow> (string \<times> json) list \<Rightarrow> (string \<times> json) list" where
  "dict_merge a b =
     map (\<lambda>kv. (fst kv, case map_of b (fst kv) of None \<Rightarrow> snd kv | Some v \<Rightarrow> v)) a
     @ filter (\<lambda>kv. map_of a (fst kv) = None) b"

fun merge_env :: "(string \<times> string) list \<Rightarrow> json \<Rightarrow> pyexc + (string \<times> json) list" where
  "merge_env amb (JObj kvs) = Inr (dict_merge (map (\<lambda>kv. (fst kv, JStr (snd kv))) amb) kvs)"
| "merge_env amb _ = Inl TypeError"

text \<open>\<^verbatim>\<open>[command] + args\<close>: the right operand has to be a list.\<close>

fun list_plus :: "json list \<Rightarrow> json \<Rightarrow> pyexc + json list" where
  "list_plus xs (JArr ys) = Inr (xs @ ys)"
| "list_plus xs _ = Inl TypeError"

text \<open>\<^verbatim>\<open>u.rstrip("/")\<close>: only a string has the method.\<close>

fun py_rstrip_slash :: "json \<Rightarrow> pyexc + string" where
  "py_rstrip_slash (JStr s) = Inr (rev (dropWhile (\<lambda>c. c = CHR ''/'') (rev s)))"
| "py_rstrip_slash _ = Inl AttributeError"

definition create_subprocess_exec ::
  "world \<Rightarrow> json list \<Rightarrow> (string \<times> json) list \<Rightarrow> unit io" where
  "create_subprocess_exec w cmd env =
     ((case spawn_error w of None \<Rightarrow> Return () | Some e \<Rightarrow> Raise e),
      [Spawn cmd env (spawn_error w = None)])"

definition write_drain :: "write_outcome \<Rightarrow> string \<Rightarrow> unit io" where
  "write_drain out msg =
     ((case out of Drained \<Rightarrow> Return () | WriteRaised e \<Rightarrow> Raise e | Blocked \<Rightarrow> Hang),
      [Write msg out])"

text \<open>The request object, written out in \<^verbatim>\<open>_send_jsonrpc\<close> and again in
  \<^verbatim>\<open>_sse_request\<close>.\<close>

definition request_envelope :: "int \<Rightarrow> string \<Rightarrow> json \<Rightarrow> json" where
  "request_envelope req_id method params =
     JObj [(''jsonrpc'', JStr ''2.0''), (''id'', JInt req_id),
           (''method'', JStr method), (''params'', params)]"

definition send_jsonrpc :: "pylib \<Rightarrow> write_outcome \<Rightarrow> int \<Rightarrow> string \<Rightarrow> json \<Rightarrow> unit io" where
  "send_jsonrpc L out req_id method params =
     write_drain out (json_dumps L (request_envelope req_id method params) @ [CHR 0x0A])"

definition send_notification :: "pylib \<Rightarrow> write_outcome \<Rightarrow> string \<Rightarrow> unit io" where
  "send_notification L out method =
     write_drain out
       (json_dumps L (JObj [(''jsonrpc'', JStr ''2.0''), (''method'', JStr method)])
        @ [CHR 0x0A])"

definition read_jsonrpc :: "pylib \<Rightarrow> pyexc + string \<Rightarrow> nat \<Rightarrow> json io" where
  "read_jsonrpc L out timeout =
     bindIO ((case out of Inl e \<Rightarrow> Raise e | Inr line \<Rightarrow> Return line), [Read timeout out])
       (\<lambda>line. lift (json_loads_bytes L line))"

section \<open>Process transport\<close>

definition initialize_params :: json where
  "initialize_params =
     JObj [(''protocolVersion'', JStr ''2024-11-05''),
           (''capabilities'', JObj []),
           (''clientInfo'', JObj [(''name'', JStr ''mcp-factory''), (''version'', JStr ''1.0.0'')])]"

text \<open>The body of the \<^verbatim>\<open>try\<close> block of \<^verbatim>\<open>_stdio_request\<close>.\<close>

definition stdio_exchange ::
  "pylib \<Rightarrow> world \<Rightarrow> string \<Rightarrow> json \<Rightarrow> (json \<Rightarrow> pyexc + string) \<Rightarrow> string io" where
  "stdio_exchange L w method params formatter =
     bindIO (send_jsonrpc L (init_write w) 1 ''initialize'' initialize_params) (\<lambda>u1.
     bindIO (read_jsonrpc L (init_line w) 10) (\<lambda>resp0.
     bindIO (send_notification L (notify_write w) ''notifications/initialized'') (\<lambda>u2.
     bindIO (send_jsonrpc L (request_write w) 2 method params) (\<lambda>u3.
     bindIO (read_jsonrpc L (response_line w) 30) (\<lambda>resp.
     bindIO (lift (py_contains ''error'' resp)) (\<lambda>has_error.
     if has_error
     then bindIO (lift (py_getitem resp ''error'')) (\<lambda>err.
            ret (''Server error: '' @ py_str L err))
     else bindIO (lift (py_get resp ''result'' (JObj []))) (\<lambda>result.
            lift (formatter result))))))))"

text \<open>The \<^verbatim>\<open>finally\<close> block: terminate, wait five seconds, kill on timeout. Only the
  wait sits in the inner \<^verbatim>\<open>try\<close>, and only its \<open>TimeoutError\<close> is handled.\<close>

definition terminate :: "world \<Rightarrow> unit io" where
  "terminate w =
     ((if exited_before_terminate w then Raise ProcessLookupError else Return ()),
      [Terminate (\<not> exited_before_terminate w)])"

definition kill :: "world \<Rightarrow> unit io" where
  "kill w =
     ((if exited_before_kill w then Raise ProcessLookupError else Return ()),
      [Kill (\<not> exited_before_kill w)])"

definition wait_for_exit :: "world \<Rightarrow> nat \<Rightarrow> unit io" where
  "wait_for_exit w timeout =
     ((if exits_in_grace w then Return () else Raise TimeoutError),
      [Wait timeout (exits_in_grace w)])"

definition cleanup :: "world \<Rightarrow> unit io" where
  "cleanup w =
     bindIO (terminate w) (\<lambda>u.
     try_except (wait_for_exit w 5)
       (\<lambda>e. if e = TimeoutError then kill w else (Raise e, [])))"

text \<open>The first two lines of \<^verbatim>\<open>_stdio_request\<close>: the command line and the environment
  of the child.\<close>

definition command_line :: "json \<Rightarrow> pyexc + json list" where
  "command_line server =
     bindE (py_getitem server ''command'') (\<lambda>command.
     bindE (py_get server ''args'' (JArr [])) (\<lambda>args.
     list_plus [command] args))"

definition child_env :: "world \<Rightarrow> json \<Rightarrow> pyexc + (string \<times> json) list" where
  "child_env w server =
     bindE (py_get server ''env'' (JObj [])) (\<lambda>extra. merge_env (environ w) extra)"

definition stdio_request ::
  "pylib \<Rightarrow> world \<Rightarrow> json \<Rightarrow> string \<Rightarrow> json \<Rightarrow> (json \<Rightarrow> pyexc + string) \<Rightarrow> string io" where
  "stdio_request L w server method params formatter =
     bindIO (lift (command_line server)) (\<lambda>cmd.
     bindIO (lift (child_env w server)) (\<lambda>env.
     bindIO (create_subprocess_exec w cmd env) (\<lambda>proc.
     try_finally (stdio_exchange L w method params formatter) (cleanup w))))"

section \<open>Remote transport\<close>

definition auth_headers :: "pylib \<Rightarrow> json \<Rightarrow> pyexc + (string \<times> string) list" where
  "auth_headers L server =
     bindE (py_get server ''env'' (JObj [])) (\<lambda>env.
     bindE (py_get env ''AUTH_TOKEN'' JNull) (\<lambda>tok.
     if py_truthy tok
     then bindE (py_getitem server ''env'') (\<lambda>env'.
          bindE (py_getitem env' ''AUTH_TOKEN'') (\<lambda>tok'.
          Inr [(''Authorization'', ''Bearer '' @ py_str L tok')]))
     else Inr []))"

definition http_post ::
  "world \<Rightarrow> string \<Rightarrow> (string \<times> string) list \<Rightarrow> json \<Rightarrow> string io" where
  "http_post w url headers body =
     ((case http_response w of Inl e \<Rightarrow> Raise e | Inr b \<Rightarrow> Return b),
      [HttpPost url headers body])"

definition sse_request ::
  "pylib \<Rightarrow> world \<Rightarrow> json \<Rightarrow> string \<Rightarrow> json \<Rightarrow> (json \<Rightarrow> pyexc + string) \<Rightarrow> string io" where
  "sse_request L w server method params formatter =
     (if \<not> httpx_installed w then ret ''Error: httpx not installed. Run: pip install httpx''
      else
        bindIO (lift (py_getitem server ''url'')) (\<lambda>u.
        bindIO (lift (py_rstrip_slash u)) (\<lambda>url.
        bindIO (lift (auth_headers L server)) (\<lambda>headers.
        bindIO (http_post w url headers (request_envelope 1 method params)) (\<lambda>body.
        bindIO (lift (response_json L body)) (\<lambda>data.
        bindIO (lift (py_contains ''error'' data)) (\<lambda>has_error.
        if has_error
        then bindIO (lift (py_getitem data ''error'')) (\<lambda>err.
               ret (''Server error: '' @ py_str L err))
        else bindIO (lift (py_get data ''result'' (JObj []))) (\<lambda>result.
               lift (formatter result)))))))))"

section \<open>Proxy facade\<close>

text \<open>
  The opening lines of both operations: load the registry, look the alias up in
  \<^verbatim>\<open>registry["servers"]\<close>, and fetch its entry. \<open>None\<close> is the case in which the
  operation returns its not-found message. All of this runs before the \<^verbatim>\<open>try\<close> block.
\<close>

definition find_server :: "world \<Rightarrow> string \<Rightarrow> pyexc + json option" where
  "find_server w alias =
     bindE (load_registry w) (\<lambda>registry.
     bindE (py_getitem registry ''servers'') (\<lambda>servers.
     bindE (py_contains alias servers) (\<lambda>present.
     if \<not> present then Inr None
     else bindE (py_getitem servers alias) (\<lambda>server. Inr (Some server)))))"

text \<open>
  \<^verbatim>\<open>server["transport"]\<close> is looked up again in each branch of the source; the lookup
  is pure, so it is made once here.
\<close>

definition dispatch ::
  "pylib \<Rightarrow> world \<Rightarrow> json \<Rightarrow> string \<Rightarrow> json \<Rightarrow> (json \<Rightarrow> pyexc + string) \<Rightarrow> string io" where
  "dispatch L w server method params formatter =
     bindIO (lift (py_getitem server ''transport'')) (\<lambda>transport.
     if transport = JStr ''stdio'' then stdio_request L w server method params formatter
     else if transport = JStr ''sse'' then sse_request L w server method params formatter
     else ret (''Unknown transport: '' @ py_str L transport))"

definition remote_discover :: "pylib \<Rightarrow> world \<Rightarrow> string \<Rightarrow> string io" where
  "remote_discover L w alias =
     bindIO (lift (find_server w alias)) (\<lambda>found.
     case found of
       None \<Rightarrow>
         ret (''Server '' @ [CHR 0x27] @ alias @ [CHR 0x27]
              @ '' not found. Run registry_list() to see available servers.'')
     | Some server \<Rightarrow>
         try_except (dispatch L w server ''tools/list'' (JObj []) (format_tools L))
           (\<lambda>e. if e = TimeoutError
                 then ret (''Timeout connecting to '' @ [CHR 0x27] @ alias @ [CHR 0x27]
                           @ ''. Is the server running?'')
                 else ret (''Error discovering tools on '' @ [CHR 0x27] @ alias @ [CHR 0x27]
                           @ '': '' @ exc_str L e)))"

definition remote_call ::
  "pylib \<Rightarrow> world \<Rightarrow> string \<Rightarrow> string \<Rightarrow> string \<Rightarrow> string io" where
  "remote_call L w alias tool_name arguments =
     bindIO (lift (find_server w alias)) (\<lambda>found.
     case found of
       None \<Rightarrow> ret (''Server '' @ [CHR 0x27] @ alias @ [CHR 0x27] @ '' not found.'')
     | Some server \<Rightarrow>
         bindIO (lift (json_loads L arguments)) (\<lambda>args_dict.
         bindIO (audit w ''remote_call''
                   (''alias='' @ alias @ '' tool='' @ tool_name @ '' args='' @ arguments)) (\<lambda>u.
         try_except
           (dispatch L w server ''tools/call''
              (JObj [(''name'', JStr tool_name), (''arguments'', args_dict)])
              (format_call_result L))
           (\<lambda>e. if e = TimeoutError
                 then ret (''Timeout calling '' @ [CHR 0x27] @ tool_name @ [CHR 0x27]
                           @ '' on '' @ [CHR 0x27] @ alias @ [CHR 0x27] @ ''.'')
                 else ret (''Error calling '' @ [CHR 0x27] @ tool_name @ [CHR 0x27]
                           @ '' on '' @ [CHR 0x27] @ alias @ [CHR 0x27]
                           @ '': '' @ exc_str L e)))))"

section \<open>Vocabulary of the properties\<close>

subsection \<open>Shapes of result payloads\<close>

text \<open>
  The two shape families of the formatter, in the words of the specification: a tool
  list is a sequence of tool descriptors, each with a name, an optional description and
  an optional parameter schema whose declared parameters are mappings; a tool-call
  result is a sequence of content items, where an item of kind text carries its text.
\<close>

definition field :: "(string \<times> json) list \<Rightarrow> string \<Rightarrow> json \<Rightarrow> json" where
  "field kvs k d = (case map_of kvs k of None \<Rightarrow> d | Some v \<Rightarrow> v)"

fun is_obj :: "json \<Rightarrow> bool" where
  "is_obj (JObj kvs) = True"
| "is_obj _ = False"

fun is_str :: "json \<Rightarrow> bool" where
  "is_str (JStr s) = True"
| "is_str _ = False"

fun members :: "json \<Rightarrow> (string \<times> json) list" where
  "members (JObj kvs) = kvs"
| "members _ = []"

fun the_str :: "json \<Rightarrow> string" where
  "the_str (JStr s) = s"
| "the_str _ = []"

definition declared_params :: "json \<Rightarrow> (string \<times> json) list" where
  "declared_params tool =
     members (field (members (field (members tool) ''inputSchema'' (JObj [])))
                ''properties'' (JObj []))"

definition tool_descriptor :: "json \<Rightarrow> bool" where
  "tool_descriptor tool \<longleftrightarrow>
     is_obj tool \<and> map_of (members tool) ''name'' \<noteq> None
     \<and> is_obj (field (members tool) ''inputSchema'' (JObj []))
     \<and> is_obj (field (members (field (members tool) ''inputSchema'' (JObj [])))
                ''properties'' (JObj []))
     \<and> list_all (\<lambda>p. is_obj (snd p)) (declared_params tool)"

definition tools_of :: "json \<Rightarrow> json list" where
  "tools_of result =
     (case field (members result) ''tools'' (JArr []) of JArr ts \<Rightarrow> ts | _ \<Rightarrow> [])"

definition tool_list_shape :: "json \<Rightarrow> bool" where
  "tool_list_shape result \<longleftrightarrow>
     is_obj result
     \<and> (case field (members result) ''tools'' (JArr []) of
          JArr ts \<Rightarrow> list_all tool_descriptor ts
        | _ \<Rightarrow> False)"

definition content_item :: "json \<Rightarrow> bool" where
  "content_item item \<longleftrightarrow>
     is_obj item
     \<and> (field (members item) ''type'' JNull = JStr ''text''
          \<longrightarrow> (case map_of (members item) ''text'' of Some v \<Rightarrow> is_str v | None \<Rightarrow> False))"

definition content_of :: "json \<Rightarrow> json list" where
  "content_of result =
     (case field (members result) ''content'' (JArr []) of JArr items \<Rightarrow> items | _ \<Rightarrow> [])"

definition call_result_shape :: "json \<Rightarrow> bool" where
  "call_result_shape result \<longleftrightarrow>
     is_obj result
     \<and> (case field (members result) ''content'' (JArr []) of
          JArr items \<Rightarrow> list_all content_item items
        | _ \<Rightarrow> False)"

text \<open>The text the specification asks for: the line of a parameter, the lines of a tool,
  the contribution of a content item.\<close>

definition param_line :: "pylib \<Rightarrow> string \<times> json \<Rightarrow> string" where
  "param_line L p =
     ''    '' @ fst p @ '': '' @ py_str L (field (members (snd p)) ''type'' (JStr ''any''))
     @ (if py_truthy (field (members (snd p)) ''description'' (JStr []))
        then '' '' @ em_dash @ '' ''
             @ py_str L (field (members (snd p)) ''description'' (JStr []))
        else [])"

definition tool_lines :: "pylib \<Rightarrow> json \<Rightarrow> string list" where
  "tool_lines L tool =
     (''  '' @ py_str L (field (members tool) ''name'' JNull) @ '': ''
        @ py_str L (field (members tool) ''description'' (JStr [])))
     # map (param_line L) (declared_params tool)"

definition item_text :: "pylib \<Rightarrow> json \<Rightarrow> string" where
  "item_text L item =
     (if field (members item) ''type'' JNull = JStr ''text''
      then the_str (field (members item) ''text'' JNull)
      else json_dumps L item)"

subsection \<open>Traces\<close>

text \<open>
  The events of the \<^verbatim>\<open>finally\<close> block. When the child has already exited, the
  request to terminate raises and nothing follows. \<open>cleanup_quiet\<close> says that the block
  raises nothing: the child was still there for each signal sent to it. After a trace a
  child is still running if a spawn started one and no exit was seen since: an exit
  observed by the wait, a signal that found no process, or a kill.
\<close>

definition cleanup_events :: "world \<Rightarrow> event list" where
  "cleanup_events w =
     (if exited_before_terminate w then [Terminate False]
      else [Terminate True, Wait 5 (exits_in_grace w)]
           @ (if exits_in_grace w then [] else [Kill (\<not> exited_before_kill w)]))"

definition cleanup_quiet :: "world \<Rightarrow> bool" where
  "cleanup_quiet w \<longleftrightarrow>
     \<not> exited_before_terminate w \<and> (exits_in_grace w \<or> \<not> exited_before_kill w)"



subsection \<open>How far a call gets\<close>

fun succeeds :: "pyexc + 'a \<Rightarrow> bool" where
  "succeeds (Inr x) = True"
| "succeeds (Inl e) = False"

fun decodes :: "pylib \<Rightarrow> pyexc + string \<Rightarrow> bool" where
  "decodes L (Inr line) = succeeds (json_loads_bytes L line)"
| "decodes L (Inl e) = False"

text \<open>The mapping \<^verbatim>\<open>registry["servers"]\<close>, when the registry can be loaded and has
  one.\<close>

definition registry_servers :: "world \<Rightarrow> (string \<times> json) list option" where
  "registry_servers w =
     (case load_registry w of
        Inr (JObj entries) \<Rightarrow>
          (case map_of entries ''servers'' of Some (JObj servers) \<Rightarrow> Some servers | _ \<Rightarrow> None)
      | _ \<Rightarrow> None)"


definition child_started :: "world \<Rightarrow> json \<Rightarrow> bool" where
  "child_started w server \<longleftrightarrow>
     succeeds (command_line server) \<and> succeeds (child_env w server) \<and> spawn_error w = None"

definition handshake_done :: "pylib \<Rightarrow> world \<Rightarrow> bool" where
  "handshake_done L w \<longleftrightarrow>
     init_write w = Drained \<and> decodes L (init_line w) \<and> notify_write w = Drained"

definition post_sent :: "pylib \<Rightarrow> world \<Rightarrow> json \<Rightarrow> bool" where
  "post_sent L w server \<longleftrightarrow>
     httpx_installed w
     \<and> succeeds (bindE (py_getitem server ''url'') py_rstrip_slash)
     \<and> succeeds (auth_headers L server)"

text \<open>The token a descriptor carries: the value of \<^verbatim>\<open>AUTH_TOKEN\<close> in its \<^verbatim>\<open>env\<close> mapping.\<close>

definition env_token :: "json \<Rightarrow> json option" where
  "env_token server = map_of (members (field (members server) ''env'' (JObj []))) ''AUTH_TOKEN''"

subsection \<open>The reply of the downstream server\<close>

text \<open>
  The text in which the downstream server answers the request of a call, when the call
  gets as far as reading it: the line read in the request phase of the process
  transport, or the body of the HTTP response. \<open>reply_decoded\<close> is what the decoder of
  the transport makes of that text: a value or an exception. \<open>outcome_kept\<close> says that
  nothing after the reply replaces the outcome of the call: on the process transport,
  that the cleanup raises nothing.
\<close>

definition reply_text :: "pylib \<Rightarrow> world \<Rightarrow> json \<Rightarrow> string option" where
  "reply_text L w server =
     (if py_getitem server ''transport'' = Inr (JStr ''stdio'')
      then (if child_started w server \<and> handshake_done L w \<and> request_write w = Drained
            then (case response_line w of Inr line \<Rightarrow> Some line | Inl e \<Rightarrow> None)
            else None)
      else if py_getitem server ''transport'' = Inr (JStr ''sse'')
      then (if post_sent L w server
            then (case http_response w of Inr body \<Rightarrow> Some body | Inl e \<Rightarrow> None)
            else None)
      else None)"

definition reply_decoded :: "pylib \<Rightarrow> world \<Rightarrow> json \<Rightarrow> (pyexc + json) option" where
  "reply_decoded L w server =
     (case reply_text L w server of
        None \<Rightarrow> None
      | Some raw \<Rightarrow>
          Some (if py_getitem server ''transport'' = Inr (JStr ''stdio'')
                then json_loads_bytes L raw else response_json L raw))"

definition outcome_kept :: "world \<Rightarrow> json \<Rightarrow> bool" where
  "outcome_kept w server \<longleftrightarrow>
     (py_getitem server ''transport'' = Inr (JStr ''stdio'') \<longrightarrow> cleanup_quiet w)"

text \<open>What both transports do with a decoded frame, written once.\<close>

definition surface :: "pylib \<Rightarrow> json \<Rightarrow> (json \<Rightarrow> pyexc + string) \<Rightarrow> pyexc + string" where
  "surface L resp formatter =
     bindE (py_contains ''error'' resp) (\<lambda>has_error.
     if has_error
     then bindE (py_getitem resp ''error'') (\<lambda>err. Inr (''Server error: '' @ py_str L err))
     else bindE (py_get resp ''result'' (JObj [])) formatter)"

text \<open>The messages of the facade.\<close>

definition timeout_discover_message :: "string \<Rightarrow> string" where
  "timeout_discover_message alias =
     ''Timeout connecting to '' @ [CHR 0x27] @ alias @ [CHR 0x27] @ ''. Is the server running?''"

definition error_discover_message :: "pylib \<Rightarrow> string \<Rightarrow> pyexc \<Rightarrow> string" where
  "error_discover_message L alias e =
     ''Error discovering tools on '' @ [CHR 0x27] @ alias @ [CHR 0x27] @ '': '' @ exc_str L e"

definition timeout_call_message :: "string \<Rightarrow> string \<Rightarrow> string" where
  "timeout_call_message tool_name alias =
     ''Timeout calling '' @ [CHR 0x27] @ tool_name @ [CHR 0x27]
     @ '' on '' @ [CHR 0x27] @ alias @ [CHR 0x27] @ ''.''"

definition error_call_message :: "pylib \<Rightarrow> string \<Rightarrow> string \<Rightarrow> pyexc \<Rightarrow> string" where
  "error_call_message L tool_name alias e =
     ''Error calling '' @ [CHR 0x27] @ tool_name @ [CHR 0x27]
     @ '' on '' @ [CHR 0x27] @ alias @ [CHR 0x27] @ '': '' @ exc_str L e"

text \<open>The message an exception caught by the facade becomes.\<close>

definition discover_message :: "pylib \<Rightarrow> string \<Rightarrow> pyexc \<Rightarrow> string" where
  "discover_message L alias e =
     (if e = TimeoutError then timeout_discover_message alias
      else error_discover_message L alias e)"

definition call_message :: "pylib \<Rightarrow> string \<Rightarrow> string \<Rightarrow> pyexc \<Rightarrow> string" where
  "call_message L tool_name alias e =
     (if e = TimeoutError then timeout_call_message tool_name alias
      else error_call_message L tool_name alias e)"

text \<open>The audit line \<open>remote_call\<close> writes before it dispatches.\<close>

definition audit_line :: "string \<Rightarrow> string \<Rightarrow> string \<Rightarrow> event" where
  "audit_line alias tool_name arguments =
     Audit ''remote_call'' (''alias='' @ alias @ '' tool='' @ tool_name @ '' args='' @ arguments)"

definition initialize_frame :: "pylib \<Rightarrow> string" where
  "initialize_frame L =
     json_dumps L (request_envelope 1 ''initialize'' initialize_params) @ [CHR 0x0A]"

definition initialized_frame :: "pylib \<Rightarrow> string" where
  "initialized_frame L =
     json_dumps L (JObj [(''jsonrpc'', JStr ''2.0''),
                         (''method'', JStr ''notifications/initialized'')]) @ [CHR 0x0A]"

text \<open>\<open>to_outcome\<close> reads a result of the pure part as the outcome of a call.\<close>

fun to_outcome :: "pyexc + 'a \<Rightarrow> 'a outcome" where
  "to_outcome (Inl e) = Raise e"
| "to_outcome (Inr x) = Return x"

subsection \<open>Sample inputs\<close>

definition dq :: string where
  "dq = [CHR 0x22]"

definition error_frame :: string where
  "error_frame = ''{'' @ dq @ ''error'' @ dq @ '': '' @ dq @ ''boom'' @ dq @ ''}''"

definition null_error_frame :: string where
  "null_error_frame = ''{'' @ dq @ ''error'' @ dq @ '': null}''"

definition none_error_frame :: string where
  "none_error_frame = ''{'' @ dq @ ''error'' @ dq @ '': '' @ dq @ ''None'' @ dq @ ''}''"

definition echo_frame :: string where
  "echo_frame =
     ''{'' @ dq @ ''result'' @ dq @ '': {'' @ dq @ ''content'' @ dq @ '': [{''
     @ dq @ ''type'' @ dq @ '': '' @ dq @ ''text'' @ dq @ '', ''
     @ dq @ ''text'' @ dq @ '': '' @ dq @ ''Server error: boom'' @ dq @ ''}]}}''"

definition rpc_error_frame :: string where
  "rpc_error_frame =
     ''{'' @ dq @ ''error'' @ dq @ '': {'' @ dq @ ''code'' @ dq @ '': -32601, ''
     @ dq @ ''message'' @ dq @ '': '' @ dq @ ''Method not found'' @ dq @ ''}}''"

definition sample_decode :: "string \<Rightarrow> pyexc + json" where
  "sample_decode s =
     (if s = ''{}'' then Inr (JObj [])
      else if s = ''5'' then Inr (JInt 5)
      else if s = error_frame then Inr (JObj [(''error'', JStr ''boom'')])
      else if s = rpc_error_frame
      then Inr (JObj [(''error'', JObj [(''code'', JInt (- 32601)),
                                        (''message'', JStr ''Method not found'')])])
      else if s = null_error_frame then Inr (JObj [(''error'', JNull)])
      else if s = none_error_frame then Inr (JObj [(''error'', JStr ''None'')])
      else if s = echo_frame
      then Inr (JObj [(''result'', JObj [(''content'', JArr
                  [JObj [(''type'', JStr ''text''), (''text'', JStr ''Server error: boom'')]])])])
      else Inl JSONDecodeError)"

definition sample_exc_str :: "pyexc \<Rightarrow> string" where
  "sample_exc_str e =
     (case e of
        KeyError k \<Rightarrow> str_repr k
      | JSONDecodeError \<Rightarrow> ''Expecting value: line 1 column 1 (char 0)''
      | ProcessLookupError \<Rightarrow> []
      | _ \<Rightarrow> ''<exception>'')"

definition sample_lib :: pylib where
  "sample_lib =
     \<lparr> json_loads = sample_decode,
       json_loads_bytes = sample_decode,
       response_json = sample_decode,
       json_dumps = (\<lambda>v. ''<json>''),
       float_repr = (\<lambda>x. ''<float>''),
       exc_str = sample_exc_str \<rparr>"

definition stdio_server :: json where
  "stdio_server = JObj [(''transport'', JStr ''stdio''), (''command'', JStr ''python'')]"

definition sse_server :: json where
  "sse_server = JObj [(''transport'', JStr ''sse''), (''url'', JStr ''http://localhost:3001/sse/'')]"

definition empty_command_server :: json where
  "empty_command_server = JObj [(''transport'', JStr ''stdio''), (''command'', JStr [])]"

definition no_command_server :: json where
  "no_command_server = JObj [(''transport'', JStr ''stdio'')]"

definition no_url_server :: json where
  "no_url_server = JObj [(''transport'', JStr ''sse'')]"

definition token_server :: json where
  "token_server =
     JObj [(''transport'', JStr ''sse''), (''url'', JStr ''http://localhost:3001''),
           (''env'', JObj [(''AUTH_TOKEN'', JStr ''s3cret'')])]"

definition empty_token_server :: json where
  "empty_token_server =
     JObj [(''transport'', JStr ''sse''), (''url'', JStr ''http://localhost:3001''),
           (''env'', JObj [(''AUTH_TOKEN'', JStr [])])]"

definition sample_servers :: "(string \<times> json) list" where
  "sample_servers =
     [(''local'', stdio_server), (''web'', sse_server),
      (''empty'', empty_command_server), (''nocmd'', no_command_server),
      (''nourl'', no_url_server)]"

definition sample_world :: world where
  "sample_world =
     \<lparr> environ = [(''PATH'', ''/usr/bin'')],
       ensure_dirs_error = None,
       registry_file = Some (Inr (JObj [(''servers'', JObj sample_servers)])),
       audit_error = None,
       spawn_error = None,
       init_write = Drained,
       init_line = Inr ''{}'',
       notify_write = Drained,
       request_write = Drained,
       response_line = Inr ''{}'',
       exited_before_terminate = False,
       exits_in_grace = False,
       exited_before_kill = False,
       httpx_installed = True,
       http_response = Inr ''{}'' \<rparr>"

definition sample_tools :: json where
  "sample_tools =
     JObj [(''tools'', JArr
       [JObj [(''name'', JStr ''search''), (''description'', JStr ''Find pages''),
              (''inputSchema'', JObj [(''properties'', JObj
                 [(''query'', JObj [(''type'', JStr ''string''), (''description'', JStr ''words'')]),
                  (''limit'', JObj [(''type'', JStr ''integer'')])])])],
        JObj [(''name'', JStr ''ping''), (''description'', JStr ''Check''),
              (''inputSchema'', JObj [(''properties'', JObj
                 [(''host'', JObj [])])])]])]"

definition sample_content :: json where
  "sample_content =
     JObj [(''content'', JArr
       [JObj [(''type'', JStr ''text''), (''text'', JStr ''hello'')],
        JObj [(''type'', JStr ''image''), (''data'', JStr ''AAAA'')]])]"

definition nameless_tools :: json where
  "nameless_tools = JObj [(''tools'', JArr [JObj [(''description'', JStr ''no name'')]])]"

definition scalar_content :: json where
  "scalar_content = JObj [(''content'', JInt 5)]"

definition spawn_failure_world :: world where
  "spawn_failure_world = sample_world \<lparr> spawn_error := Some OSError \<rparr>"

definition handshake_timeout_world :: world where
  "handshake_timeout_world = sample_world \<lparr> init_line := Inl TimeoutError \<rparr>"

definition handshake_garbage_world :: world where
  "handshake_garbage_world = sample_world \<lparr> init_line := Inr ''not json'' \<rparr>"

definition handshake_number_world :: world where
  "handshake_number_world = sample_world \<lparr> init_line := Inr ''5'' \<rparr>"

definition response_timeout_world :: world where
  "response_timeout_world = sample_world \<lparr> response_line := Inl TimeoutError \<rparr>"

definition garbage_world :: world where
  "garbage_world =
     sample_world \<lparr> response_line := Inr ''not json'', http_response := Inr ''not json'' \<rparr>"








section \<open>Basic facts\<close>

lemma bindE_Inr [simp]: "bindE (Inr x) f = f x"
  by (simp add: bindE_def)

lemma bindE_Inl [simp]: "bindE (Inl e) f = Inl e"
  by (simp add: bindE_def)

lemma mapE_map: "(\<And>x. x \<in> set xs \<Longrightarrow> f x = Inr (g x)) \<Longrightarrow> mapE f xs = Inr (map g xs)"
  by (induction xs) simp_all

lemma mapE_as_str: "mapE as_str (map JStr ss) = Inr ss"
  by (induction ss) simp_all

lemma mapE_failure: "mapE f xs = Inl e \<Longrightarrow> \<exists>x \<in> set xs. f x = Inl e"
proof (induction xs)
  case Nil
  then show ?case by simp
next
  case (Cons x xs)
  then show ?case
    by (cases "f x"; cases "mapE f xs") simp_all
qed

lemma succeedsE: "succeeds r \<Longrightarrow> (\<And>x. r = Inr x \<Longrightarrow> P) \<Longrightarrow> P"
  by (cases r) simp_all

lemma lift_Inr [simp]: "lift (Inr x) = (Return x, [])"
  by (simp add: lift_def)

lemma lift_Inl [simp]: "lift (Inl e) = (Raise e, [])"
  by (simp add: lift_def)

lemma lift_to_outcome: "lift r = (to_outcome r, [])"
  by (cases r) simp_all

lemma bindIO_ret [simp]: "bindIO (ret x) f = f x"
  by (simp add: bindIO_def ret_def)

lemma bindIO_Return [simp]: "bindIO (Return x, tr) f = (fst (f x), tr @ snd (f x))"
  by (simp add: bindIO_def)

lemma bindIO_Raise [simp]: "bindIO (Raise e, tr) f = (Raise e, tr)"
  by (simp add: bindIO_def)

lemma bindIO_Hang [simp]: "bindIO (Hang, tr) f = (Hang, tr)"
  by (simp add: bindIO_def)

lemma snd_bindIO:
  "snd (bindIO m f) = snd m @ (case fst m of Return x \<Rightarrow> snd (f x) | Raise e \<Rightarrow> [] | Hang \<Rightarrow> [])"
  by (simp add: bindIO_def split: outcome.splits)

lemma snd_lift [simp]: "snd (lift r) = []"
  by (simp add: lift_def)

lemma fst_lift [simp]: "fst (lift r) = to_outcome r"
  by (simp add: lift_to_outcome)

lemma snd_ret [simp]: "snd (ret x) = []"
  by (simp add: ret_def)

lemma fst_ret [simp]: "fst (ret x) = Return x"
  by (simp add: ret_def)

lemma cleanup_eq:
  "cleanup w = ((if cleanup_quiet w then Return () else Raise ProcessLookupError), cleanup_events w)"
  by (simp add: cleanup_def cleanup_events_def cleanup_quiet_def terminate_def kill_def
      wait_for_exit_def try_except_def)

lemma try_finally_cleanup:
  "fst m \<noteq> Hang \<Longrightarrow>
     try_finally m (cleanup w)
       = ((if cleanup_quiet w then fst m else Raise ProcessLookupError),
          snd m @ cleanup_events w)"
  by (cases "fst m") (simp_all add: try_finally_def cleanup_eq)

lemma try_finally_Hang: "fst m = Hang \<Longrightarrow> try_finally m c = (Hang, snd m)"
  by (simp add: try_finally_def)

text \<open>A handler that always returns a message turns every exception into a message and
  adds no event.\<close>

lemma try_except_message:
  assumes "\<And>e. h e = ret (g e)"
  shows "try_except m h =
           ((case fst m of Return x \<Rightarrow> Return x | Raise e \<Rightarrow> Return (g e) | Hang \<Rightarrow> Hang),
            snd m)"
  by (cases m) (simp add: try_except_def assms ret_def split: outcome.splits)

section \<open>The formatters on well-formed results\<close>

lemma py_get_obj: "is_obj v \<Longrightarrow> py_get v k d = Inr (field (members v) k d)"
  by (cases v) (simp_all add: field_def split: option.splits)

lemma py_items_obj: "is_obj v \<Longrightarrow> py_items v = Inr (members v)"
  by (cases v) simp_all

lemma py_getitem_obj:
  "is_obj v \<Longrightarrow> map_of (members v) k \<noteq> None \<Longrightarrow> py_getitem v k = Inr (field (members v) k d)"
  by (cases v) (auto simp: field_def split: option.splits)

lemma format_param_ok: "is_obj (snd p) \<Longrightarrow> format_param L p = Inr (param_line L p)"
  by (simp add: format_param_def param_line_def py_get_obj)

lemma format_tool_ok: "tool_descriptor tool \<Longrightarrow> format_tool L tool = Inr (tool_lines L tool)"
  unfolding tool_descriptor_def format_tool_def tool_lines_def
  by (simp add: py_get_obj py_items_obj py_getitem_obj [where d = JNull] declared_params_def
      mapE_map [where g = "param_line L"] format_param_ok list_all_iff)

lemma format_tools_ok:
  assumes "tool_list_shape result"
  shows "format_tools L result =
           Inr (if tools_of result = [] then ''No tools found on this server.''
                else ''Available tools:'' @ [CHR 0x0A]
                     @ str_join [CHR 0x0A] (concat (map (tool_lines L) (tools_of result))))"
proof -
  from assms have obj: "is_obj result" by (simp add: tool_list_shape_def)
  from assms obtain ts where
    ts: "field (members result) ''tools'' (JArr []) = JArr ts" and all: "list_all tool_descriptor ts"
    by (auto simp: tool_list_shape_def split: json.splits)
  have "mapE (format_tool L) ts = Inr (map (tool_lines L) ts)"
    using all by (intro mapE_map) (simp add: list_all_iff format_tool_ok)
  then show ?thesis
    by (simp add: format_tools_def py_get_obj [OF obj] ts tools_of_def)
qed

lemma format_item_ok:
  "content_item item \<Longrightarrow> format_item L item = Inr (JStr (item_text L item))"
  unfolding content_item_def format_item_def item_text_def
  by (cases item; cases "map_of (members item) ''text''")
     (auto simp: py_get_obj field_def split: option.splits elim: is_str.elims)

lemma format_call_result_ok:
  assumes "call_result_shape result"
  shows "format_call_result L result =
           Inr (if content_of result = [] then ''(empty response)''
                else str_join [CHR 0x0A] (map (item_text L) (content_of result)))"
proof -
  from assms have obj: "is_obj result" by (simp add: call_result_shape_def)
  from assms obtain items where
    items: "field (members result) ''content'' (JArr []) = JArr items"
    and all: "list_all content_item items"
    by (auto simp: call_result_shape_def split: json.splits)
  have "mapE (format_item L) items = Inr (map (\<lambda>i. JStr (item_text L i)) items)"
    using all by (intro mapE_map) (simp add: list_all_iff format_item_ok)
  moreover have "mapE as_str (map (\<lambda>i. JStr (item_text L i)) items) = Inr (map (item_text L) items)"
    using mapE_as_str [of "map (item_text L) items"] by (simp add: comp_def)
  ultimately show ?thesis
    by (simp add: format_call_result_def py_get_obj [OF obj] items content_of_def py_join_def)
qed

section \<open>The facade\<close>

lemma find_server_registered:
  assumes "registry_servers w = Some servers"
  shows "find_server w alias = Inr (map_of servers alias)"
proof -
  from assms obtain entries where "load_registry w = Inr (JObj entries)"
    and "map_of entries ''servers'' = Some (JObj servers)"
    by (auto simp: registry_servers_def split: sum.splits json.splits option.splits)
  then show ?thesis
    by (cases "map_of servers alias") (simp_all add: find_server_def)
qed

lemma remote_discover_found:
  assumes "find_server w alias = Inr (Some server)"
  shows "remote_discover L w alias =
           ((case fst (dispatch L w server ''tools/list'' (JObj []) (format_tools L)) of
               Return s \<Rightarrow> Return s
             | Raise e \<Rightarrow> Return (discover_message L alias e)
             | Hang \<Rightarrow> Hang),
            snd (dispatch L w server ''tools/list'' (JObj []) (format_tools L)))"
proof -
  have h: "try_except m
             (\<lambda>e. if e = TimeoutError
                   then ret (''Timeout connecting to '' @ [CHR 0x27] @ alias @ [CHR 0x27]
                             @ ''. Is the server running?'')
                   else ret (''Error discovering tools on '' @ [CHR 0x27] @ alias @ [CHR 0x27]
                             @ '': '' @ exc_str L e))
           = ((case fst m of Return x \<Rightarrow> Return x
               | Raise e \<Rightarrow> Return (discover_message L alias e) | Hang \<Rightarrow> Hang), snd m)"
    for m :: "string io"
    by (rule try_except_message)
       (simp add: discover_message_def timeout_discover_message_def
          error_discover_message_def)
  show ?thesis
    by (simp add: remote_discover_def assms h)
qed

lemma remote_call_found:
  assumes "find_server w alias = Inr (Some server)"
    and "json_loads L arguments = Inr args_dict" and "audit_error w = None"
  shows "remote_call L w alias tool_name arguments =
           ((case fst (dispatch L w server ''tools/call''
                         (JObj [(''name'', JStr tool_name), (''arguments'', args_dict)])
                         (format_call_result L)) of
               Return s \<Rightarrow> Return s
             | Raise e \<Rightarrow> Return (call_message L tool_name alias e)
             | Hang \<Rightarrow> Hang),
            audit_line alias tool_name arguments
            # snd (dispatch L w server ''tools/call''
                     (JObj [(''name'', JStr tool_name), (''arguments'', args_dict)])
                     (format_call_result L)))"
proof -
  from assms(1) have dirs: "ensure_dirs w = Inr ()"
    by (cases "ensure_dirs w") (simp_all add: find_server_def load_registry_def)
  have h: "try_except m
             (\<lambda>e. if e = TimeoutError
                   then ret (''Timeout calling '' @ [CHR 0x27] @ tool_name @ [CHR 0x27]
                             @ '' on '' @ [CHR 0x27] @ alias @ [CHR 0x27] @ ''.'')
                   else ret (''Error calling '' @ [CHR 0x27] @ tool_name @ [CHR 0x27]
                             @ '' on '' @ [CHR 0x27] @ alias @ [CHR 0x27]
                             @ '': '' @ exc_str L e))
           = ((case fst m of Return x \<Rightarrow> Return x
               | Raise e \<Rightarrow> Return (call_message L tool_name alias e) | Hang \<Rightarrow> Hang), snd m)"
    for m :: "string io"
    by (rule try_except_message)
       (simp add: call_message_def timeout_call_message_def error_call_message_def)
  show ?thesis
    by (simp add: remote_call_def assms audit_def dirs h audit_line_def)
qed

lemma remote_discover_registered:
  assumes "registry_servers w = Some servers" and "map_of servers alias = Some server"
  shows "remote_discover L w alias =
           ((case fst (dispatch L w server ''tools/list'' (JObj []) (format_tools L)) of
               Return s \<Rightarrow> Return s
             | Raise e \<Rightarrow> Return (discover_message L alias e)
             | Hang \<Rightarrow> Hang),
            snd (dispatch L w server ''tools/list'' (JObj []) (format_tools L)))"
  by (rule remote_discover_found) (simp add: find_server_registered [OF assms(1)] assms(2))

lemma remote_call_registered:
  assumes "registry_servers w = Some servers" and "map_of servers alias = Some server"
    and "json_loads L arguments = Inr args_dict" and "audit_error w = None"
  shows "remote_call L w alias tool_name arguments =
           ((case fst (dispatch L w server ''tools/call''
                         (JObj [(''name'', JStr tool_name), (''arguments'', args_dict)])
                         (format_call_result L)) of
               Return s \<Rightarrow> Return s
             | Raise e \<Rightarrow> Return (call_message L tool_name alias e)
             | Hang \<Rightarrow> Hang),
            audit_line alias tool_name arguments
            # snd (dispatch L w server ''tools/call''
                     (JObj [(''name'', JStr tool_name), (''arguments'', args_dict)])
                     (format_call_result L)))"
  by (rule remote_call_found [OF _ assms(3,4)])
     (simp add: find_server_registered [OF assms(1)] assms(2))

section \<open>The process transport\<close>





lemma stdio_request_started:
  assumes "command_line server = Inr cmd" and "child_env w server = Inr env"
    and "spawn_error w = None"
  shows "stdio_request L w server m p fmt =
           (if fst (stdio_exchange L w m p fmt) = Hang
            then (Hang, Spawn cmd env True # snd (stdio_exchange L w m p fmt))
            else ((if cleanup_quiet w then fst (stdio_exchange L w m p fmt)
                   else Raise ProcessLookupError),
                  Spawn cmd env True # snd (stdio_exchange L w m p fmt) @ cleanup_events w))"
  by (simp add: stdio_request_def assms create_subprocess_exec_def try_finally_cleanup
      try_finally_Hang)





section \<open>The remote transport\<close>

lemma sse_request_trace:
  "snd (sse_request L w server m p fmt) = []
   \<or> (\<exists>url headers. auth_headers L server = Inr headers
        \<and> snd (sse_request L w server m p fmt)
            = [HttpPost url headers (request_envelope 1 m p)])"
proof (cases "httpx_installed w")
  case False
  then show ?thesis by (simp add: sse_request_def)
next
  case inst: True
  show ?thesis
  proof (cases "py_getitem server ''url''")
    case (Inl e)
    then show ?thesis by (simp add: sse_request_def inst)
  next
    case u: (Inr u)
    show ?thesis
    proof (cases "py_rstrip_slash u")
      case (Inl e)
      then show ?thesis by (simp add: sse_request_def inst u)
    next
      case url: (Inr url)
      show ?thesis
      proof (cases "auth_headers L server")
        case (Inl e)
        then show ?thesis by (simp add: sse_request_def inst u url)
      next
        case (Inr headers)
        then show ?thesis
          by (simp add: sse_request_def inst u url http_post_def snd_bindIO
              split: outcome.splits sum.splits)
      qed
    qed
  qed
qed

section \<open>Dispatch\<close>







section \<open>Calls that come to an end\<close>

lemma to_outcome_ends [simp]: "to_outcome r \<noteq> Hang"
  by (cases r) simp_all












section \<open>Cleanup of the child process\<close>




section \<open>Unknown aliases and escaping exceptions\<close>

text \<open>
  Claim C4. For an alias that is not in the registry, \<open>remote_discover\<close> and
  \<open>remote_call\<close> return their not-found message and the trace of the call is empty:
  no process is spawned and no HTTP request is made.
\<close>

theorem unknown_alias_no_effect:
  assumes "registry_servers w = Some servers" and "map_of servers alias = None"
  shows "remote_discover L w alias =
           (Return (''Server '' @ [CHR 0x27] @ alias @ [CHR 0x27]
                    @ '' not found. Run registry_list() to see available servers.''), [])
         \<and> remote_call L w alias tool_name arguments =
           (Return (''Server '' @ [CHR 0x27] @ alias @ [CHR 0x27] @ '' not found.''), [])"
  by (simp add: remote_discover_def remote_call_def find_server_registered [OF assms(1)]
      assms(2) ret_def)

theorem unknown_alias_no_effect_witness:
  "registry_servers sample_world = Some sample_servers
   \<and> map_of sample_servers ''nowhere'' = None
   \<and> remote_discover sample_lib sample_world ''nowhere'' =
       (Return (''Server '' @ [CHR 0x27] @ ''nowhere'' @ [CHR 0x27]
                @ '' not found. Run registry_list() to see available servers.''), [])
   \<and> remote_call sample_lib sample_world ''nowhere'' ''echo'' ''not json'' =
       (Return (''Server '' @ [CHR 0x27] @ ''nowhere'' @ [CHR 0x27] @ '' not found.''), [])"
proof -
  have r: "registry_servers sample_world = Some sample_servers" by code_simp
  have h: "map_of sample_servers ''nowhere'' = None" by code_simp
  from r h unknown_alias_no_effect [OF r h, of sample_lib "''echo''" "''not json''"]
  show ?thesis by (intro conjI) simp_all
qed




section \<open>The result formatters\<close>

lemma py_getitem_failure: "py_getitem v k = Inl e \<Longrightarrow> e = TypeError \<or> e = KeyError k"
  by (cases v) (auto split: option.splits)

lemma py_get_failure: "py_get v k d = Inl e \<Longrightarrow> e = AttributeError"
  by (cases v) (auto split: option.splits)

lemma py_iter_failure: "py_iter v = Inl e \<Longrightarrow> e = TypeError"
  by (cases v) auto

lemma py_items_failure: "py_items v = Inl e \<Longrightarrow> e = AttributeError"
  by (cases v) auto

lemma as_str_failure: "as_str v = Inl e \<Longrightarrow> e = TypeError"
  by (cases v) auto

lemma bindE_failure:
  "bindE m f = Inl e \<Longrightarrow> m = Inl e \<or> (\<exists>x. m = Inr x \<and> f x = Inl e)"
  by (cases m) simp_all

lemma format_param_failure: "format_param L q = Inl e \<Longrightarrow> e = AttributeError"
  unfolding format_param_def
  by (auto dest!: bindE_failure dest: py_get_failure)

lemma format_tool_failure:
  "format_tool L tool = Inl e \<Longrightarrow> e = TypeError \<or> e = AttributeError \<or> e = KeyError ''name''"
  unfolding format_tool_def
  by (auto dest!: bindE_failure mapE_failure
           dest: py_get_failure py_getitem_failure py_items_failure format_param_failure)

lemma format_tools_failure:
  "format_tools L result = Inl e
     \<Longrightarrow> e = TypeError \<or> e = AttributeError \<or> e = KeyError ''name''"
  unfolding format_tools_def
  by (auto dest!: bindE_failure mapE_failure split: if_splits
           dest: py_get_failure py_iter_failure format_tool_failure)

lemma format_item_failure:
  "format_item L item = Inl e \<Longrightarrow> e = TypeError \<or> e = AttributeError \<or> e = KeyError ''text''"
  unfolding format_item_def
  by (auto dest!: bindE_failure split: if_splits dest: py_get_failure py_getitem_failure)

lemma format_call_result_failure:
  "format_call_result L result = Inl e
     \<Longrightarrow> e = TypeError \<or> e = AttributeError \<or> e = KeyError ''text''"
  unfolding format_call_result_def py_join_def
  by (auto dest!: bindE_failure mapE_failure split: if_splits
           dest: py_get_failure py_iter_failure format_item_failure as_str_failure)

text \<open>
  A payload that belongs to one shape family can make the formatter of the other family
  fail, and what is raised is a \<open>TypeError\<close>: here a tool list (it has no tools) whose
  \<^verbatim>\<open>content\<close> is a number, given to \<open>format_call_result\<close>.
\<close>

theorem formatter_fails_inside_other_family:
  "tool_list_shape scalar_content
   \<and> format_call_result sample_lib scalar_content = Inl TypeError"
  by code_simp

text \<open>
  Claim C9, as the code has it. The formatters are functions of the result payload
  alone (and of the library's rendering functions): they take no world and produce no
  event. Each is total on its own shape family: on a tool list \<open>format_tools\<close> returns a
  text, on a tool-call result \<open>format_call_result\<close> returns a text. A formatter fails
  only on a payload outside its own shape family, and then with the \<open>TypeError\<close>,
  \<open>AttributeError\<close> or \<open>KeyError\<close> of the operation that failed; there is no error kind
  for an unrecognized shape.
\<close>

theorem formatters_total_on_shapes:
  "(tool_list_shape result \<longrightarrow> (\<exists>text. format_tools L result = Inr text))
   \<and> (call_result_shape result \<longrightarrow> (\<exists>text. format_call_result L result = Inr text))
   \<and> (format_tools L result = Inl e
       \<longrightarrow> \<not> tool_list_shape result
           \<and> (e = TypeError \<or> e = AttributeError \<or> e = KeyError ''name''))
   \<and> (format_call_result L result = Inl e
       \<longrightarrow> \<not> call_result_shape result
           \<and> (e = TypeError \<or> e = AttributeError \<or> e = KeyError ''text''))"
proof (intro conjI impI)
  assume "tool_list_shape result"
  from format_tools_ok [OF this] show "\<exists>text. format_tools L result = Inr text" by blast
next
  assume "call_result_shape result"
  from format_call_result_ok [OF this] show "\<exists>text. format_call_result L result = Inr text"
    by blast
next
  assume "format_tools L result = Inl e"
  with format_tools_ok [of result L] show "\<not> tool_list_shape result" by auto
next
  assume "format_tools L result = Inl e"
  then show "e = TypeError \<or> e = AttributeError \<or> e = KeyError ''name''"
    by (rule format_tools_failure)
next
  assume "format_call_result L result = Inl e"
  with format_call_result_ok [of result L] show "\<not> call_result_shape result" by auto
next
  assume "format_call_result L result = Inl e"
  then show "e = TypeError \<or> e = AttributeError \<or> e = KeyError ''text''"
    by (rule format_call_result_failure)
qed

theorem formatters_total_on_shapes_witness:
  "tool_list_shape sample_tools
   \<and> (\<exists>text. format_tools sample_lib sample_tools = Inr text)
   \<and> call_result_shape sample_content
   \<and> (\<exists>text. format_call_result sample_lib sample_content = Inr text)
   \<and> format_tools sample_lib nameless_tools = Inl (KeyError ''name'')
   \<and> \<not> tool_list_shape nameless_tools
   \<and> format_call_result sample_lib scalar_content = Inl TypeError
   \<and> \<not> call_result_shape scalar_content"
proof -
  have t: "tool_list_shape sample_tools" by code_simp
  have c: "call_result_shape sample_content" by code_simp
  have ft: "format_tools sample_lib nameless_tools = Inl (KeyError ''name'')" by code_simp
  have fc: "format_call_result sample_lib scalar_content = Inl TypeError" by code_simp
  note bad1 = formatters_total_on_shapes [of nameless_tools sample_lib "KeyError ''name''"]
  note bad2 = formatters_total_on_shapes [of scalar_content sample_lib TypeError]
  from formatters_total_on_shapes [of sample_tools sample_lib TypeError] t
  have 1: "\<exists>text. format_tools sample_lib sample_tools = Inr text" by blast
  from formatters_total_on_shapes [of sample_content sample_lib TypeError] c
  have 2: "\<exists>text. format_call_result sample_lib sample_content = Inr text" by blast
  from bad1 ft have 3: "\<not> tool_list_shape nameless_tools" by blast
  from bad2 fc have 4: "\<not> call_result_shape scalar_content" by blast
  from t c ft fc 1 2 3 4 show ?thesis by blast
qed

text \<open>
  Claim C10. On a tool list the formatter writes, under the heading line, the lines of
  the tools in the order the tools appear: for each tool the line with its name and
  description, followed by one indented line for each declared parameter with its name,
  its type and, when there is one, its description. An empty tool sequence gives the
  line \<^verbatim>\<open>No tools found on this server.\<close> On a tool-call result every item of kind
  text contributes its text and every other item its \<^verbatim>\<open>json.dumps\<close> rendering, one
  per line; an empty content sequence gives the line \<^verbatim>\<open>(empty response)\<close>.
\<close>

theorem formatters_render_shapes:
  "(tool_list_shape result \<longrightarrow>
      format_tools L result =
        Inr (if tools_of result = [] then ''No tools found on this server.''
             else ''Available tools:'' @ [CHR 0x0A]
                  @ str_join [CHR 0x0A] (concat (map (tool_lines L) (tools_of result)))))
   \<and> (call_result_shape result \<longrightarrow>
      format_call_result L result =
        Inr (if content_of result = [] then ''(empty response)''
             else str_join [CHR 0x0A] (map (item_text L) (content_of result))))"
  using format_tools_ok [of result L] format_call_result_ok [of result L] by blast

theorem formatters_render_shapes_witness:
  "tool_list_shape sample_tools
   \<and> format_tools sample_lib sample_tools =
       Inr (''Available tools:'' @ [CHR 0x0A]
            @ ''  search: Find pages'' @ [CHR 0x0A]
            @ ''    query: string '' @ em_dash @ '' words'' @ [CHR 0x0A]
            @ ''    limit: integer'' @ [CHR 0x0A]
            @ ''  ping: Check'' @ [CHR 0x0A]
            @ ''    host: any'')
   \<and> call_result_shape sample_content
   \<and> format_call_result sample_lib sample_content = Inr (''hello'' @ [CHR 0x0A] @ ''<json>'')
   \<and> tool_list_shape (JObj [(''tools'', JArr [])])
   \<and> format_tools sample_lib (JObj [(''tools'', JArr [])]) = Inr ''No tools found on this server.''
   \<and> call_result_shape (JObj [(''content'', JArr [])])
   \<and> format_call_result sample_lib (JObj [(''content'', JArr [])]) = Inr ''(empty response)''"
proof -
  have t: "tool_list_shape sample_tools" by code_simp
  have c: "call_result_shape sample_content" by code_simp
  have t0: "tool_list_shape (JObj [(''tools'', JArr [])])" by code_simp
  have c0: "call_result_shape (JObj [(''content'', JArr [])])" by code_simp
  have et: "(if tools_of sample_tools = [] then ''No tools found on this server.''
             else ''Available tools:'' @ [CHR 0x0A]
                  @ str_join [CHR 0x0A] (concat (map (tool_lines sample_lib) (tools_of sample_tools))))
            = ''Available tools:'' @ [CHR 0x0A]
              @ ''  search: Find pages'' @ [CHR 0x0A]
              @ ''    query: string '' @ em_dash @ '' words'' @ [CHR 0x0A]
              @ ''    limit: integer'' @ [CHR 0x0A]
              @ ''  ping: Check'' @ [CHR 0x0A]
              @ ''    host: any''"
    by code_simp
  have ec: "(if content_of sample_content = [] then ''(empty response)''
             else str_join [CHR 0x0A] (map (item_text sample_lib) (content_of sample_content)))
            = ''hello'' @ [CHR 0x0A] @ ''<json>''"
    by code_simp
  have et0: "(if tools_of (JObj [(''tools'', JArr [])]) = [] then ''No tools found on this server.''
              else ''Available tools:'' @ [CHR 0x0A]
                   @ str_join [CHR 0x0A]
                       (concat (map (tool_lines sample_lib) (tools_of (JObj [(''tools'', JArr [])])))))
             = ''No tools found on this server.''"
    by code_simp
  have ec0: "(if content_of (JObj [(''content'', JArr [])]) = [] then ''(empty response)''
              else str_join [CHR 0x0A]
                     (map (item_text sample_lib) (content_of (JObj [(''content'', JArr [])]))))
             = ''(empty response)''"
    by code_simp
  from formatters_render_shapes [of sample_tools sample_lib, unfolded et] t
  have 1: "format_tools sample_lib sample_tools =
       Inr (''Available tools:'' @ [CHR 0x0A]
            @ ''  search: Find pages'' @ [CHR 0x0A]
            @ ''    query: string '' @ em_dash @ '' words'' @ [CHR 0x0A]
            @ ''    limit: integer'' @ [CHR 0x0A]
            @ ''  ping: Check'' @ [CHR 0x0A]
            @ ''    host: any'')"
    by blast
  from formatters_render_shapes [of sample_content sample_lib, unfolded ec] c
  have 2: "format_call_result sample_lib sample_content = Inr (''hello'' @ [CHR 0x0A] @ ''<json>'')"
    by blast
  from formatters_render_shapes [of "JObj [(''tools'', JArr [])]" sample_lib, unfolded et0] t0
  have 3: "format_tools sample_lib (JObj [(''tools'', JArr [])]) = Inr ''No tools found on this server.''"
    by blast
  from formatters_render_shapes [of "JObj [(''content'', JArr [])]" sample_lib, unfolded ec0] c0
  have 4: "format_call_result sample_lib (JObj [(''content'', JArr [])]) = Inr ''(empty response)''"
    by blast
  from t c t0 c0 1 2 3 4 show ?thesis by blast
qed

section \<open>What a call returns once the reply is read\<close>

lemma to_outcome_bindE:
  "fst (bindIO (lift r) f) = (case r of Inl e \<Rightarrow> Raise e | Inr x \<Rightarrow> fst (f x))"
  by (cases r) simp_all

lemma surface_outcome:
  "fst (bindIO (lift (py_contains ''error'' resp)) (\<lambda>has_error.
          if has_error
          then bindIO (lift (py_getitem resp ''error'')) (\<lambda>err.
                 ret (''Server error: '' @ py_str L err))
          else bindIO (lift (py_get resp ''result'' (JObj []))) (\<lambda>result.
                 lift (fmt result))))
     = to_outcome (surface L resp fmt)"
  unfolding surface_def
  by (cases "py_contains ''error'' resp"; cases "py_getitem resp ''error''";
      cases "py_get resp ''result'' (JObj [])")
     (simp_all add: lift_to_outcome)

lemma stdio_exchange_reply:
  assumes "handshake_done L w" and "request_write w = Drained"
  shows "fst (stdio_exchange L w m p fmt)
           = to_outcome (bindE (response_line w) (\<lambda>line.
               bindE (json_loads_bytes L line) (\<lambda>resp. surface L resp fmt)))"
proof -
  from assms(1) obtain line0 resp0 where init:
    "init_write w = Drained" "init_line w = Inr line0" "json_loads_bytes L line0 = Inr resp0"
    "notify_write w = Drained"
    by (cases "init_line w") (auto simp: handshake_done_def elim!: succeedsE)
  have "fst (stdio_exchange L w m p fmt)
          = fst (bindIO (read_jsonrpc L (response_line w) 30) (\<lambda>resp.
                 bindIO (lift (py_contains ''error'' resp)) (\<lambda>has_error.
                 if has_error
                 then bindIO (lift (py_getitem resp ''error'')) (\<lambda>err.
                        ret (''Server error: '' @ py_str L err))
                 else bindIO (lift (py_get resp ''result'' (JObj []))) (\<lambda>result.
                        lift (fmt result)))))"
    by (simp add: stdio_exchange_def send_jsonrpc_def send_notification_def write_drain_def
        read_jsonrpc_def init assms(2))
  also have "\<dots> = to_outcome (bindE (response_line w) (\<lambda>line.
               bindE (json_loads_bytes L line) (\<lambda>resp. surface L resp fmt)))"
  proof (cases "response_line w")
    case (Inl e)
    then show ?thesis by (simp add: read_jsonrpc_def)
  next
    case (Inr line)
    show ?thesis
    proof (cases "json_loads_bytes L line")
      case (Inl e)
      with Inr show ?thesis by (simp add: read_jsonrpc_def)
    next
      case resp: (Inr resp)
      with Inr show ?thesis
        by (simp add: read_jsonrpc_def surface_outcome)
    qed
  qed
  finally show ?thesis .
qed

lemma stdio_request_reply:
  assumes "child_started w server" and "handshake_done L w" and "request_write w = Drained"
    and "cleanup_quiet w"
  shows "fst (stdio_request L w server m p fmt)
           = to_outcome (bindE (response_line w) (\<lambda>line.
               bindE (json_loads_bytes L line) (\<lambda>resp. surface L resp fmt)))"
proof -
  from assms(1) obtain cmd env where started: "command_line server = Inr cmd"
    "child_env w server = Inr env" "spawn_error w = None"
    by (auto simp: child_started_def elim!: succeedsE)
  show ?thesis
    by (simp add: stdio_request_started [OF started] stdio_exchange_reply [OF assms(2,3)]
        assms(4))
qed

lemma sse_request_reply:
  assumes "post_sent L w server"
  shows "fst (sse_request L w server m p fmt)
           = to_outcome (bindE (http_response w) (\<lambda>body.
               bindE (response_json L body) (\<lambda>data. surface L data fmt)))"
proof -
  from assms obtain u url headers where inst: "httpx_installed w"
    and u: "py_getitem server ''url'' = Inr u" and url: "py_rstrip_slash u = Inr url"
    and h: "auth_headers L server = Inr headers"
    by (cases "py_getitem server ''url''") (auto simp: post_sent_def elim!: succeedsE)
  show ?thesis
  proof (cases "http_response w")
    case (Inl e)
    then show ?thesis by (simp add: sse_request_def inst u url h http_post_def)
  next
    case (Inr body)
    show ?thesis
    proof (cases "response_json L body")
      case (Inl e)
      with Inr show ?thesis by (simp add: sse_request_def inst u url h http_post_def)
    next
      case data: (Inr data)
      with Inr show ?thesis
        by (simp add: sse_request_def inst u url h http_post_def surface_outcome)
    qed
  qed
qed

lemma dispatch_reply:
  assumes "reply_decoded L w server = Some d" and "outcome_kept w server"
  shows "fst (dispatch L w server m p fmt)
           = to_outcome (bindE d (\<lambda>resp. surface L resp fmt))"
proof (cases "py_getitem server ''transport'' = Inr (JStr ''stdio'')")
  case True
  from assms(1) True obtain raw where st: "child_started w server" "handshake_done L w"
    "request_write w = Drained"
    and line: "response_line w = Inr raw" and d: "d = json_loads_bytes L raw"
    by (auto simp: reply_decoded_def reply_text_def split: if_splits sum.splits option.splits)
  from assms(2) True have quiet: "cleanup_quiet w"
    by (simp add: outcome_kept_def)
  from True stdio_request_reply [OF st quiet] line d show ?thesis
    by (simp add: dispatch_def)
next
  case False
  with assms(1) obtain raw where sse: "py_getitem server ''transport'' = Inr (JStr ''sse'')"
    and sent: "post_sent L w server" and body: "http_response w = Inr raw"
    and d: "d = response_json L raw"
    by (auto simp: reply_decoded_def reply_text_def split: if_splits sum.splits option.splits)
  from sse sse_request_reply [OF sent] body d show ?thesis
    by (simp add: dispatch_def)
qed


lemma surface_neither:
  "map_of kvs ''error'' = None \<Longrightarrow> map_of kvs ''result'' = None
     \<Longrightarrow> surface L (JObj kvs) fmt = fmt (JObj [])"
  by (simp add: surface_def)

text \<open>The facade, given the outcome of the dispatch.\<close>

lemma remote_discover_of_dispatch:
  assumes "registry_servers w = Some servers" and "map_of servers alias = Some server"
    and "dispatch L w server ''tools/list'' (JObj []) (format_tools L) = (r, tr)"
  shows "remote_discover L w alias =
           ((case r of Return s \<Rightarrow> Return s
             | Raise e \<Rightarrow> Return (discover_message L alias e) | Hang \<Rightarrow> Hang), tr)"
  by (simp only: remote_discover_registered [OF assms(1,2)] assms(3) fst_conv snd_conv)

lemma remote_call_of_dispatch:
  assumes "registry_servers w = Some servers" and "map_of servers alias = Some server"
    and "json_loads L arguments = Inr args_dict" and "audit_error w = None"
    and "dispatch L w server ''tools/call''
           (JObj [(''name'', JStr tool_name), (''arguments'', args_dict)])
           (format_call_result L) = (r, tr)"
  shows "remote_call L w alias tool_name arguments =
           ((case r of Return s \<Rightarrow> Return s
             | Raise e \<Rightarrow> Return (call_message L tool_name alias e) | Hang \<Rightarrow> Hang),
            audit_line alias tool_name arguments # tr)"
  by (simp only: remote_call_registered [OF assms(1-4)] assms(5) fst_conv snd_conv)

lemma remote_discover_fst:
  assumes "registry_servers w = Some servers" and "map_of servers alias = Some server"
    and "fst (dispatch L w server ''tools/list'' (JObj []) (format_tools L)) = r"
  shows "fst (remote_discover L w alias) =
           (case r of Return s \<Rightarrow> Return s
            | Raise e \<Rightarrow> Return (discover_message L alias e) | Hang \<Rightarrow> Hang)"
  by (simp only: remote_discover_registered [OF assms(1,2)] assms(3) fst_conv)

lemma remote_call_fst:
  assumes "registry_servers w = Some servers" and "map_of servers alias = Some server"
    and "json_loads L arguments = Inr args_dict" and "audit_error w = None"
    and "\<And>params. fst (dispatch L w server ''tools/call'' params (format_call_result L)) = r"
  shows "fst (remote_call L w alias tool_name arguments) =
           (case r of Return s \<Rightarrow> Return s
            | Raise e \<Rightarrow> Return (call_message L tool_name alias e) | Hang \<Rightarrow> Hang)"
  by (simp only: remote_call_registered [OF assms(1-4)] assms(5) fst_conv)

section \<open>Error replies and malformed replies\<close>




text \<open>
  A reply that decodes to the empty mapping, with neither key, is formatted like an
  empty tool list.
\<close>

theorem frame_without_result_and_error_accepted:
  "reply_decoded sample_lib sample_world stdio_server = Some (Inr (JObj []))
   \<and> fst (remote_discover sample_lib sample_world ''local'')
       = Return ''No tools found on this server.''"
  by code_simp

text \<open>
  Claim C6, as the code has it. A reply that the decoder of the transport rejects fails
  the call on either transport: the decoder raises and the facade returns its message
  for that exception. A reply that decodes to a mapping with neither a \<^verbatim>\<open>result\<close>
  nor an \<^verbatim>\<open>error\<close> key does not fail: \<^verbatim>\<open>resp.get("result", {})\<close> makes it an empty
  result, which the formatter turns into its sentinel line. On the process transport
  both are stated for a cleanup that raises nothing.
\<close>

theorem malformed_reply_surfaced:
  assumes "registry_servers w = Some servers" and "map_of servers alias = Some server"
    and "outcome_kept w server"
  shows "(reply_decoded L w server = Some (Inl e)
            \<longrightarrow> fst (remote_discover L w alias) = Return (discover_message L alias e)
                \<and> (succeeds (json_loads L arguments) \<and> audit_error w = None
                     \<longrightarrow> fst (remote_call L w alias tool_name arguments)
                           = Return (call_message L tool_name alias e)))
         \<and> (reply_decoded L w server = Some (Inr (JObj kvs))
              \<and> map_of kvs ''error'' = None \<and> map_of kvs ''result'' = None
            \<longrightarrow> fst (remote_discover L w alias) = Return ''No tools found on this server.''
                \<and> (succeeds (json_loads L arguments) \<and> audit_error w = None
                     \<longrightarrow> fst (remote_call L w alias tool_name arguments)
                           = Return ''(empty response)''))"
proof -
  have 1: "fst (remote_discover L w alias) = Return (discover_message L alias e)
           \<and> (succeeds (json_loads L arguments) \<and> audit_error w = None
                \<longrightarrow> fst (remote_call L w alias tool_name arguments)
                      = Return (call_message L tool_name alias e))"
    if bad: "reply_decoded L w server = Some (Inl e)"
  proof -
    have d: "fst (dispatch L w server m p fmt) = Raise e" for m p fmt
      by (simp add: dispatch_reply [OF bad assms(3)])
    have "fst (remote_discover L w alias) = Return (discover_message L alias e)"
      by (simp add: remote_discover_fst [OF assms(1,2) d])
    moreover have "fst (remote_call L w alias tool_name arguments)
                     = Return (call_message L tool_name alias e)"
      if "succeeds (json_loads L arguments) \<and> audit_error w = None"
    proof -
      from that obtain args_dict where "json_loads L arguments = Inr args_dict"
        "audit_error w = None"
        by (auto elim!: succeedsE)
      from remote_call_fst [OF assms(1,2) this d] show ?thesis by simp
    qed
    ultimately show ?thesis by blast
  qed
  have 2: "fst (remote_discover L w alias) = Return ''No tools found on this server.''
           \<and> (succeeds (json_loads L arguments) \<and> audit_error w = None
                \<longrightarrow> fst (remote_call L w alias tool_name arguments)
                      = Return ''(empty response)'')"
    if frame: "reply_decoded L w server = Some (Inr (JObj kvs))"
      and none: "map_of kvs ''error'' = None" "map_of kvs ''result'' = None"
  proof -
    have d: "fst (dispatch L w server m p fmt) = to_outcome (fmt (JObj []))" for m p fmt
      by (simp add: dispatch_reply [OF frame assms(3)] surface_neither [OF none])
    have ft: "format_tools L (JObj []) = Inr ''No tools found on this server.''"
      by (simp add: format_tools_def)
    have fc: "format_call_result L (JObj []) = Inr ''(empty response)''"
      by (simp add: format_call_result_def)
    have "fst (remote_discover L w alias) = Return ''No tools found on this server.''"
      by (simp add: remote_discover_fst [OF assms(1,2) d] ft)
    moreover have "fst (remote_call L w alias tool_name arguments) = Return ''(empty response)''"
      if "succeeds (json_loads L arguments) \<and> audit_error w = None"
    proof -
      from that obtain args_dict where "json_loads L arguments = Inr args_dict"
        "audit_error w = None"
        by (auto elim!: succeedsE)
      from remote_call_fst [OF assms(1,2) this d] show ?thesis by (simp add: fc)
    qed
    ultimately show ?thesis by blast
  qed
  from 1 2 show ?thesis by blast
qed

theorem malformed_reply_surfaced_witness:
  "registry_servers garbage_world = Some sample_servers
   \<and> registry_servers sample_world = Some sample_servers
   \<and> map_of sample_servers ''local'' = Some stdio_server
   \<and> map_of sample_servers ''web'' = Some sse_server
   \<and> outcome_kept garbage_world stdio_server
   \<and> outcome_kept garbage_world sse_server
   \<and> outcome_kept sample_world sse_server
   \<and> reply_decoded sample_lib garbage_world stdio_server = Some (Inl JSONDecodeError)
   \<and> reply_decoded sample_lib garbage_world sse_server = Some (Inl JSONDecodeError)
   \<and> reply_decoded sample_lib sample_world sse_server = Some (Inr (JObj []))
   \<and> map_of ([] :: (string \<times> json) list) ''error'' = None
   \<and> map_of ([] :: (string \<times> json) list) ''result'' = None
   \<and> succeeds (json_loads sample_lib ''{}'')
   \<and> audit_error garbage_world = None \<and> audit_error sample_world = None
   \<and> fst (remote_discover sample_lib garbage_world ''local'')
       = Return (discover_message sample_lib ''local'' JSONDecodeError)
   \<and> fst (remote_call sample_lib garbage_world ''web'' ''echo'' ''{}'')
       = Return (call_message sample_lib ''echo'' ''web'' JSONDecodeError)
   \<and> fst (remote_discover sample_lib sample_world ''web'')
       = Return ''No tools found on this server.''
   \<and> fst (remote_call sample_lib sample_world ''web'' ''echo'' ''{}'')
       = Return ''(empty response)''"
proof -
  have r1: "registry_servers garbage_world = Some sample_servers" by code_simp
  have r2: "registry_servers sample_world = Some sample_servers" by code_simp
  have a1: "map_of sample_servers ''local'' = Some stdio_server" by code_simp
  have a2: "map_of sample_servers ''web'' = Some sse_server" by code_simp
  have k1: "outcome_kept garbage_world stdio_server" by code_simp
  have k2: "outcome_kept garbage_world sse_server" by code_simp
  have k3: "outcome_kept sample_world sse_server" by code_simp
  have b1: "reply_decoded sample_lib garbage_world stdio_server = Some (Inl JSONDecodeError)"
    by code_simp
  have b2: "reply_decoded sample_lib garbage_world sse_server = Some (Inl JSONDecodeError)"
    by code_simp
  have f: "reply_decoded sample_lib sample_world sse_server = Some (Inr (JObj []))"
    by code_simp
  have n1: "map_of ([] :: (string \<times> json) list) ''error'' = None" by simp
  have n2: "map_of ([] :: (string \<times> json) list) ''result'' = None" by simp
  have j: "succeeds (json_loads sample_lib ''{}'')" by code_simp
  have g1: "audit_error garbage_world = None" by code_simp
  have g2: "audit_error sample_world = None" by code_simp
  from malformed_reply_surfaced [OF r1 a1 k1, of sample_lib JSONDecodeError, THEN conjunct1] b1
  have 1: "fst (remote_discover sample_lib garbage_world ''local'')
             = Return (discover_message sample_lib ''local'' JSONDecodeError)"
    by blast
  from malformed_reply_surfaced
         [OF r1 a2 k2, of sample_lib JSONDecodeError "''{}''" "''echo''", THEN conjunct1]
    b2 j g1
  have 2: "fst (remote_call sample_lib garbage_world ''web'' ''echo'' ''{}'')
             = Return (call_message sample_lib ''echo'' ''web'' JSONDecodeError)"
    by blast
  from malformed_reply_surfaced
         [OF r2 a2 k3, of sample_lib _ "''{}''" "''echo''" "[]", THEN conjunct2]
    f n1 n2 j g2
  have 3: "fst (remote_discover sample_lib sample_world ''web'')
             = Return ''No tools found on this server.''"
    and 4: "fst (remote_call sample_lib sample_world ''web'' ''echo'' ''{}'')
             = Return ''(empty response)''"
    by blast+
  from r1 r2 a1 a2 k1 k2 k3 b1 b2 f n1 n2 j g1 g2 1 2 3 4 show ?thesis by (intro conjI)
qed

section \<open>Failures in the handshake\<close>

lemma stdio_exchange_handshake_failure:
  assumes "init_write w = Drained" and "bindE (init_line w) (json_loads_bytes L) = Inl e"
  shows "stdio_exchange L w m p fmt
           = (Raise e, [Write (initialize_frame L) Drained, Read 10 (init_line w)])"
  using assms
  unfolding stdio_exchange_def send_jsonrpc_def write_drain_def read_jsonrpc_def
    initialize_frame_def
  by (cases "init_line w") (simp_all add: bindIO_def lift_def)

lemma stdio_exchange_handshake_accepted:
  assumes "init_write w = Drained" and "init_line w = Inr line"
    and "json_loads_bytes L line = Inr reply"
  shows "\<exists>rest. snd (stdio_exchange L w m p fmt)
           = [Write (initialize_frame L) Drained, Read 10 (init_line w),
              Write (initialized_frame L) (notify_write w)] @ rest"
  unfolding stdio_exchange_def send_jsonrpc_def send_notification_def write_drain_def
    read_jsonrpc_def initialize_frame_def initialized_frame_def
  by (simp add: assms snd_bindIO)

lemma dispatch_handshake_failure:
  assumes "py_getitem server ''transport'' = Inr (JStr ''stdio'')"
    and "command_line server = Inr cmd" and "child_env w server = Inr env"
    and "spawn_error w = None" and "init_write w = Drained"
    and "bindE (init_line w) (json_loads_bytes L) = Inl e"
  shows "dispatch L w server m p fmt
           = ((if cleanup_quiet w then Raise e else Raise ProcessLookupError),
              [Spawn cmd env True, Write (initialize_frame L) Drained, Read 10 (init_line w)]
              @ cleanup_events w)"
  by (simp add: dispatch_def assms(1) stdio_request_started [OF assms(2-4)]
      stdio_exchange_handshake_failure [OF assms(5,6)])

lemma dispatch_handshake_accepted:
  assumes "py_getitem server ''transport'' = Inr (JStr ''stdio'')"
    and "command_line server = Inr cmd" and "child_env w server = Inr env"
    and "spawn_error w = None" and "init_write w = Drained"
    and "init_line w = Inr line" and "json_loads_bytes L line = Inr reply"
  shows "\<exists>rest. snd (dispatch L w server m p fmt)
           = [Spawn cmd env True, Write (initialize_frame L) Drained, Read 10 (init_line w),
              Write (initialized_frame L) (notify_write w)] @ rest"
proof -
  from stdio_exchange_handshake_accepted [OF assms(5-7), of m p fmt]
  obtain rest where "snd (stdio_exchange L w m p fmt)
           = [Write (initialize_frame L) Drained, Read 10 (init_line w),
              Write (initialized_frame L) (notify_write w)] @ rest"
    by blast
  then show ?thesis
    by (simp add: dispatch_def assms(1) stdio_request_started [OF assms(2-4)])
qed

lemma dispatch_response_failure:
  assumes "py_getitem server ''transport'' = Inr (JStr ''stdio'')"
    and "child_started w server" and "handshake_done L w" and "request_write w = Drained"
    and "cleanup_quiet w" and "response_line w = Inl e"
  shows "fst (dispatch L w server m p fmt) = Raise e"
  by (simp add: dispatch_def assms(1) stdio_request_reply [OF assms(2-5)] assms(6))

text \<open>
  A timeout while reading the reply to \<^verbatim>\<open>initialize\<close> and a timeout while reading
  the reply to the request give the caller the same outcome. And a reply to
  \<^verbatim>\<open>initialize\<close> is not looked at: when the child answers with the number 5, the call
  goes on and succeeds.
\<close>

theorem handshake_timeout_looks_like_call_timeout:
  "fst (remote_discover sample_lib handshake_timeout_world ''local'')
     = fst (remote_discover sample_lib response_timeout_world ''local'')
   \<and> fst (remote_call sample_lib handshake_timeout_world ''local'' ''echo'' ''{}'')
     = fst (remote_call sample_lib response_timeout_world ''local'' ''echo'' ''{}'')
   \<and> json_loads_bytes sample_lib ''5'' = Inr (JInt 5)
   \<and> init_line handshake_number_world = Inr ''5''
   \<and> fst (remote_discover sample_lib handshake_number_world ''local'')
     = Return ''No tools found on this server.''"
  by code_simp

text \<open>
  Claim C5, as the code has it. When reading the reply to \<^verbatim>\<open>initialize\<close> times out or
  yields a line that the decoder rejects, the call ends there: nothing more is written
  to the child and the cleanup follows at once. When the cleanup raises nothing, the
  caller sees the same messages as for a failure in the request phase: the timeout
  message of the operation for a timeout, its error message for the decoder's
  exception. A reply that decodes is accepted whatever it holds, and the handshake goes
  on with the notification. The traces are stated for the dispatch both operations
  share, the messages for each operation.
\<close>

theorem handshake_failure_ends_call:
  assumes "registry_servers w = Some servers" and "map_of servers alias = Some server"
    and "py_getitem server ''transport'' = Inr (JStr ''stdio'')"
    and "command_line server = Inr cmd" and "child_env w server = Inr env"
    and "spawn_error w = None" and "init_write w = Drained"
  shows "(bindE (init_line w) (json_loads_bytes L) = Inl e \<longrightarrow>
            snd (dispatch L w server m p fmt)
              = [Spawn cmd env True, Write (initialize_frame L) Drained,
                 Read 10 (init_line w)] @ cleanup_events w
            \<and> (cleanup_quiet w \<longrightarrow> fst (dispatch L w server m p fmt) = Raise e))
         \<and> (cleanup_quiet w \<and> init_line w = Inl TimeoutError \<longrightarrow>
              fst (remote_discover L w alias) = Return (timeout_discover_message alias)
              \<and> (succeeds (json_loads L arguments) \<and> audit_error w = None \<longrightarrow>
                   fst (remote_call L w alias tool_name arguments)
                     = Return (timeout_call_message tool_name alias)))
         \<and> (cleanup_quiet w \<and> init_line w = Inr line \<and> json_loads_bytes L line = Inl e \<longrightarrow>
              fst (remote_discover L w alias) = Return (discover_message L alias e)
              \<and> (succeeds (json_loads L arguments) \<and> audit_error w = None \<longrightarrow>
                   fst (remote_call L w alias tool_name arguments)
                     = Return (call_message L tool_name alias e)))
         \<and> (cleanup_quiet w \<and> handshake_done L w \<and> request_write w = Drained
              \<and> response_line w = Inl TimeoutError \<longrightarrow>
              fst (remote_discover L w alias) = Return (timeout_discover_message alias)
              \<and> (succeeds (json_loads L arguments) \<and> audit_error w = None \<longrightarrow>
                   fst (remote_call L w alias tool_name arguments)
                     = Return (timeout_call_message tool_name alias)))
         \<and> (init_line w = Inr line \<and> json_loads_bytes L line = Inr reply \<longrightarrow>
              (\<exists>rest. snd (dispatch L w server m p fmt)
                 = [Spawn cmd env True, Write (initialize_frame L) Drained,
                    Read 10 (init_line w), Write (initialized_frame L) (notify_write w)]
                   @ rest))"
proof -
  have surfaced: "fst (remote_discover L w alias) = Return (discover_message L alias x)
                  \<and> (succeeds (json_loads L arguments) \<and> audit_error w = None \<longrightarrow>
                       fst (remote_call L w alias tool_name arguments)
                         = Return (call_message L tool_name alias x))"
    if d: "\<And>m p fmt. fst (dispatch L w server m p fmt) = Raise x" for x
  proof (intro conjI impI)
    show "fst (remote_discover L w alias) = Return (discover_message L alias x)"
      by (simp add: remote_discover_fst [OF assms(1,2) d])
  next
    assume "succeeds (json_loads L arguments) \<and> audit_error w = None"
    then obtain args_dict where "json_loads L arguments = Inr args_dict" "audit_error w = None"
      by (auto elim!: succeedsE)
    from remote_call_fst [OF assms(1,2) this d]
    show "fst (remote_call L w alias tool_name arguments)
            = Return (call_message L tool_name alias x)"
      by simp
  qed
  have started: "child_started w server"
    by (simp add: child_started_def assms(4-6))
  have 1: "snd (dispatch L w server m p fmt)
              = [Spawn cmd env True, Write (initialize_frame L) Drained,
                 Read 10 (init_line w)] @ cleanup_events w
            \<and> (cleanup_quiet w \<longrightarrow> fst (dispatch L w server m p fmt) = Raise e)"
    if "bindE (init_line w) (json_loads_bytes L) = Inl e"
    by (simp add: dispatch_handshake_failure [OF assms(3-7) that])
  have 2: "fst (remote_discover L w alias) = Return (timeout_discover_message alias)
          \<and> (succeeds (json_loads L arguments) \<and> audit_error w = None \<longrightarrow>
               fst (remote_call L w alias tool_name arguments)
                 = Return (timeout_call_message tool_name alias))"
    if q: "cleanup_quiet w" and t: "init_line w = Inl TimeoutError"
  proof -
    have "fst (dispatch L w server m p fmt) = Raise TimeoutError" for m p fmt
      by (simp add: dispatch_handshake_failure [OF assms(3-7), of L TimeoutError] t q)
    from surfaced [OF this] show ?thesis
      by (simp add: discover_message_def call_message_def)
  qed
  have 3: "fst (remote_discover L w alias) = Return (discover_message L alias e)
          \<and> (succeeds (json_loads L arguments) \<and> audit_error w = None \<longrightarrow>
               fst (remote_call L w alias tool_name arguments)
                 = Return (call_message L tool_name alias e))"
    if q: "cleanup_quiet w" and g: "init_line w = Inr line" "json_loads_bytes L line = Inl e"
  proof -
    have "fst (dispatch L w server m p fmt) = Raise e" for m p fmt
      by (simp add: dispatch_handshake_failure [OF assms(3-7), of L e] g q)
    from surfaced [OF this] show ?thesis .
  qed
  have 4: "fst (remote_discover L w alias) = Return (timeout_discover_message alias)
          \<and> (succeeds (json_loads L arguments) \<and> audit_error w = None \<longrightarrow>
               fst (remote_call L w alias tool_name arguments)
                 = Return (timeout_call_message tool_name alias))"
    if q: "cleanup_quiet w" and r: "handshake_done L w" "request_write w = Drained"
      and t: "response_line w = Inl TimeoutError"
  proof -
    have "fst (dispatch L w server m p fmt) = Raise TimeoutError" for m p fmt
      by (rule dispatch_response_failure [OF assms(3) started r q t])
    from surfaced [OF this] show ?thesis
      by (simp add: discover_message_def call_message_def)
  qed
  have 5: "\<exists>rest. snd (dispatch L w server m p fmt)
                 = [Spawn cmd env True, Write (initialize_frame L) Drained,
                    Read 10 (init_line w), Write (initialized_frame L) (notify_write w)]
                   @ rest"
    if "init_line w = Inr line" "json_loads_bytes L line = Inr reply"
    by (rule dispatch_handshake_accepted [OF assms(3-7) that])
  from 1 2 3 4 5 show ?thesis by blast
qed

theorem handshake_failure_ends_call_witness:
  "registry_servers handshake_timeout_world = Some sample_servers
   \<and> map_of sample_servers ''local'' = Some stdio_server
   \<and> py_getitem stdio_server ''transport'' = Inr (JStr ''stdio'')
   \<and> command_line stdio_server = Inr [JStr ''python'']
   \<and> child_env handshake_timeout_world stdio_server = Inr [(''PATH'', JStr ''/usr/bin'')]
   \<and> spawn_error handshake_timeout_world = None
   \<and> init_write handshake_timeout_world = Drained
   \<and> bindE (init_line handshake_timeout_world) (json_loads_bytes sample_lib) = Inl TimeoutError
   \<and> cleanup_quiet handshake_timeout_world
   \<and> init_line handshake_timeout_world = Inl TimeoutError
   \<and> cleanup_quiet handshake_garbage_world
   \<and> init_line handshake_garbage_world = Inr ''not json''
   \<and> json_loads_bytes sample_lib ''not json'' = Inl JSONDecodeError
   \<and> cleanup_quiet response_timeout_world
   \<and> handshake_done sample_lib response_timeout_world
   \<and> request_write response_timeout_world = Drained
   \<and> response_line response_timeout_world = Inl TimeoutError
   \<and> init_line handshake_number_world = Inr ''5''
   \<and> json_loads_bytes sample_lib ''5'' = Inr (JInt 5)
   \<and> succeeds (json_loads sample_lib ''{}'')
   \<and> snd (dispatch sample_lib handshake_timeout_world stdio_server ''tools/list'' (JObj [])
             (format_tools sample_lib))
       = [Spawn [JStr ''python''] [(''PATH'', JStr ''/usr/bin'')] True,
          Write (initialize_frame sample_lib) Drained, Read 10 (Inl TimeoutError),
          Terminate True, Wait 5 False, Kill True]
   \<and> fst (dispatch sample_lib handshake_timeout_world stdio_server ''tools/list'' (JObj [])
             (format_tools sample_lib)) = Raise TimeoutError
   \<and> fst (remote_discover sample_lib handshake_timeout_world ''local'')
       = Return (timeout_discover_message ''local'')
   \<and> fst (remote_call sample_lib handshake_timeout_world ''local'' ''echo'' ''{}'')
       = Return (timeout_call_message ''echo'' ''local'')
   \<and> fst (remote_discover sample_lib handshake_garbage_world ''local'')
       = Return (error_discover_message sample_lib ''local'' JSONDecodeError)
   \<and> fst (remote_call sample_lib handshake_garbage_world ''local'' ''echo'' ''{}'')
       = Return (error_call_message sample_lib ''echo'' ''local'' JSONDecodeError)
   \<and> fst (remote_discover sample_lib response_timeout_world ''local'')
       = Return (timeout_discover_message ''local'')
   \<and> fst (remote_call sample_lib response_timeout_world ''local'' ''echo'' ''{}'')
       = Return (timeout_call_message ''echo'' ''local'')
   \<and> (\<exists>rest. snd (dispatch sample_lib handshake_number_world stdio_server ''tools/list''
                      (JObj []) (format_tools sample_lib))
          = [Spawn [JStr ''python''] [(''PATH'', JStr ''/usr/bin'')] True,
             Write (initialize_frame sample_lib) Drained, Read 10 (Inr ''5''),
             Write (initialized_frame sample_lib) Drained] @ rest)"
proof -
  have r1: "registry_servers handshake_timeout_world = Some sample_servers" by code_simp
  have r2: "registry_servers handshake_garbage_world = Some sample_servers" by code_simp
  have r3: "registry_servers response_timeout_world = Some sample_servers" by code_simp
  have r4: "registry_servers handshake_number_world = Some sample_servers" by code_simp
  have a: "map_of sample_servers ''local'' = Some stdio_server" by code_simp
  have tr: "py_getitem stdio_server ''transport'' = Inr (JStr ''stdio'')" by code_simp
  have c: "command_line stdio_server = Inr [JStr ''python'']" by code_simp
  have e1: "child_env handshake_timeout_world stdio_server = Inr [(''PATH'', JStr ''/usr/bin'')]"
    by code_simp
  have e2: "child_env handshake_garbage_world stdio_server = Inr [(''PATH'', JStr ''/usr/bin'')]"
    by code_simp
  have e3: "child_env response_timeout_world stdio_server = Inr [(''PATH'', JStr ''/usr/bin'')]"
    by code_simp
  have e4: "child_env handshake_number_world stdio_server = Inr [(''PATH'', JStr ''/usr/bin'')]"
    by code_simp
  have s1: "spawn_error handshake_timeout_world = None" by code_simp
  have s2: "spawn_error handshake_garbage_world = None" by code_simp
  have s3: "spawn_error response_timeout_world = None" by code_simp
  have s4: "spawn_error handshake_number_world = None" by code_simp
  have i1: "init_write handshake_timeout_world = Drained" by code_simp
  have i2: "init_write handshake_garbage_world = Drained" by code_simp
  have i3: "init_write response_timeout_world = Drained" by code_simp
  have i4: "init_write handshake_number_world = Drained" by code_simp
  have b: "bindE (init_line handshake_timeout_world) (json_loads_bytes sample_lib)
             = Inl TimeoutError"
    by code_simp
  have q1: "cleanup_quiet handshake_timeout_world" by code_simp
  have q2: "cleanup_quiet handshake_garbage_world" by code_simp
  have q3: "cleanup_quiet response_timeout_world" by code_simp
  have t: "init_line handshake_timeout_world = Inl TimeoutError" by code_simp
  have g: "init_line handshake_garbage_world = Inr ''not json''" by code_simp
  have bad: "json_loads_bytes sample_lib ''not json'' = Inl JSONDecodeError" by code_simp
  have h: "handshake_done sample_lib response_timeout_world" by code_simp
  have rq: "request_write response_timeout_world = Drained" by code_simp
  have rt: "response_line response_timeout_world = Inl TimeoutError" by code_simp
  have n: "init_line handshake_number_world = Inr ''5''" by code_simp
  have n5: "json_loads_bytes sample_lib ''5'' = Inr (JInt 5)" by code_simp
  have nw: "notify_write handshake_number_world = Drained" by code_simp
  have j: "succeeds (json_loads sample_lib ''{}'')" by code_simp
  have a1: "audit_error handshake_timeout_world = None" by code_simp
  have a2: "audit_error handshake_garbage_world = None" by code_simp
  have a3: "audit_error response_timeout_world = None" by code_simp
  have cl: "cleanup_events handshake_timeout_world = [Terminate True, Wait 5 False, Kill True]"
    by code_simp
  have dm: "discover_message sample_lib ''local'' JSONDecodeError
              = error_discover_message sample_lib ''local'' JSONDecodeError"
    by (simp add: discover_message_def)
  have cm: "call_message sample_lib ''echo'' ''local'' JSONDecodeError
              = error_call_message sample_lib ''echo'' ''local'' JSONDecodeError"
    by (simp add: call_message_def)
  note w1 = handshake_failure_ends_call
              [OF r1 a tr c e1 s1 i1, of sample_lib TimeoutError "''tools/list''" "JObj []"
                 "format_tools sample_lib" "''{}''" "''echo''"]
  note w2 = handshake_failure_ends_call
              [OF r2 a tr c e2 s2 i2, of sample_lib JSONDecodeError "''tools/list''" "JObj []"
                 "format_tools sample_lib" "''{}''" "''echo''" "''not json''"]
  note w3 = handshake_failure_ends_call
              [OF r3 a tr c e3 s3 i3, of sample_lib TimeoutError "''tools/list''" "JObj []"
                 "format_tools sample_lib" "''{}''" "''echo''"]
  note w4 = handshake_failure_ends_call
              [OF r4 a tr c e4 s4 i4, of sample_lib TimeoutError "''tools/list''" "JObj []"
                 "format_tools sample_lib" "''{}''" "''echo''" "''5''" "JInt 5"]
  from w1 b q1
  have k1: "snd (dispatch sample_lib handshake_timeout_world stdio_server ''tools/list'' (JObj [])
             (format_tools sample_lib))
       = [Spawn [JStr ''python''] [(''PATH'', JStr ''/usr/bin'')] True,
          Write (initialize_frame sample_lib) Drained, Read 10 (Inl TimeoutError),
          Terminate True, Wait 5 False, Kill True]"
    and k1b: "fst (dispatch sample_lib handshake_timeout_world stdio_server ''tools/list'' (JObj [])
             (format_tools sample_lib)) = Raise TimeoutError"
    unfolding cl t by simp_all
  from w1 q1 t j a1
  have k2: "fst (remote_discover sample_lib handshake_timeout_world ''local'')
       = Return (timeout_discover_message ''local'')"
    and k3: "fst (remote_call sample_lib handshake_timeout_world ''local'' ''echo'' ''{}'')
       = Return (timeout_call_message ''echo'' ''local'')"
    by blast+
  from w2 q2 g bad j a2
  have k4: "fst (remote_discover sample_lib handshake_garbage_world ''local'')
       = Return (error_discover_message sample_lib ''local'' JSONDecodeError)"
    and k5: "fst (remote_call sample_lib handshake_garbage_world ''local'' ''echo'' ''{}'')
       = Return (error_call_message sample_lib ''echo'' ''local'' JSONDecodeError)"
    unfolding dm cm by blast+
  from w3 q3 h rq rt j a3
  have k6: "fst (remote_discover sample_lib response_timeout_world ''local'')
       = Return (timeout_discover_message ''local'')"
    and k7: "fst (remote_call sample_lib response_timeout_world ''local'' ''echo'' ''{}'')
       = Return (timeout_call_message ''echo'' ''local'')"
    by blast+
  from w4 n n5
  have k8: "\<exists>rest. snd (dispatch sample_lib handshake_number_world stdio_server ''tools/list''
                      (JObj []) (format_tools sample_lib))
          = [Spawn [JStr ''python''] [(''PATH'', JStr ''/usr/bin'')] True,
             Write (initialize_frame sample_lib) Drained, Read 10 (Inr ''5''),
             Write (initialized_frame sample_lib) Drained] @ rest"
    unfolding n nw by blast
  from r1 a tr c e1 s1 i1 b q1 t q2 g bad q3 h rq rt n n5 j k1 k1b k2 k3 k4 k5 k6 k7 k8
  show ?thesis by (intro conjI)
qed

section \<open>Descriptors that miss their command or url\<close>

lemma dispatch_no_command:
  assumes "map_of kvs ''transport'' = Some (JStr ''stdio'')" and "map_of kvs ''command'' = None"
  shows "dispatch L w (JObj kvs) m p fmt = (Raise (KeyError ''command''), [])"
  by (simp add: dispatch_def assms stdio_request_def command_line_def)

lemma dispatch_no_url:
  assumes "map_of kvs ''transport'' = Some (JStr ''sse'')" and "map_of kvs ''url'' = None"
  shows "dispatch L w (JObj kvs) m p fmt
           = (if httpx_installed w then Raise (KeyError ''url'')
              else Return ''Error: httpx not installed. Run: pip install httpx'', [])"
  by (simp add: dispatch_def assms sse_request_def ret_def)

text \<open>
  An empty command is not looked at: the proxy goes on to spawn it.
\<close>

theorem empty_command_is_spawned:
  "registry_servers spawn_failure_world = Some sample_servers
   \<and> map_of sample_servers ''empty'' = Some empty_command_server
   \<and> command_line empty_command_server = Inr [JStr []]
   \<and> snd (remote_discover sample_lib spawn_failure_world ''empty'')
       = [Spawn [JStr []] [(''PATH'', JStr ''/usr/bin'')] False]"
  by code_simp

text \<open>
  Claim C3, as the code has it. The proxy has no validation step of its own. A
  descriptor of the process transport without a \<^verbatim>\<open>command\<close> key, or of the remote
  transport without a \<^verbatim>\<open>url\<close> key, is rejected all the same: the lookup fails, the
  facade returns its error message, and nothing was spawned or requested (the trace
  holds at most the audit line of \<open>remote_call\<close>). An empty command is not looked at:
  the proxy goes on to spawn it.
\<close>

theorem missing_key_rejected:
  assumes "registry_servers w = Some servers" and "map_of servers alias = Some (JObj kvs)"
  shows "(map_of kvs ''transport'' = Some (JStr ''stdio'') \<and> map_of kvs ''command'' = None
            \<longrightarrow> remote_discover L w alias
                  = (Return (error_discover_message L alias (KeyError ''command'')), [])
                \<and> (succeeds (json_loads L arguments) \<and> audit_error w = None
                     \<longrightarrow> remote_call L w alias tool_name arguments
                           = (Return (error_call_message L tool_name alias (KeyError ''command'')),
                              [audit_line alias tool_name arguments])))
         \<and> (map_of kvs ''transport'' = Some (JStr ''sse'') \<and> map_of kvs ''url'' = None
            \<longrightarrow> remote_discover L w alias
                  = (Return (if httpx_installed w
                             then error_discover_message L alias (KeyError ''url'')
                             else ''Error: httpx not installed. Run: pip install httpx''), [])
                \<and> (succeeds (json_loads L arguments) \<and> audit_error w = None
                     \<longrightarrow> remote_call L w alias tool_name arguments
                           = (Return (if httpx_installed w
                                      then error_call_message L tool_name alias (KeyError ''url'')
                                      else ''Error: httpx not installed. Run: pip install httpx''),
                              [audit_line alias tool_name arguments])))"
proof -
  have 1: "remote_discover L w alias
             = (Return (error_discover_message L alias (KeyError ''command'')), [])"
    if k: "map_of kvs ''transport'' = Some (JStr ''stdio'')" "map_of kvs ''command'' = None"
    by (simp add: remote_discover_of_dispatch [OF assms dispatch_no_command [OF k]]
        discover_message_def)
  have 2: "remote_call L w alias tool_name arguments
             = (Return (error_call_message L tool_name alias (KeyError ''command'')),
                [audit_line alias tool_name arguments])"
    if k: "map_of kvs ''transport'' = Some (JStr ''stdio'')" "map_of kvs ''command'' = None"
      and j: "succeeds (json_loads L arguments) \<and> audit_error w = None"
  proof -
    from j obtain args_dict where "json_loads L arguments = Inr args_dict" "audit_error w = None"
      by (auto elim!: succeedsE)
    from remote_call_of_dispatch [OF assms this dispatch_no_command [OF k]]
    show ?thesis by (simp add: call_message_def)
  qed
  have 3: "remote_discover L w alias
             = (Return (if httpx_installed w
                        then error_discover_message L alias (KeyError ''url'')
                        else ''Error: httpx not installed. Run: pip install httpx''), [])"
    if k: "map_of kvs ''transport'' = Some (JStr ''sse'')" "map_of kvs ''url'' = None"
    by (simp add: remote_discover_of_dispatch [OF assms dispatch_no_url [OF k]]
        discover_message_def)
  have 4: "remote_call L w alias tool_name arguments
             = (Return (if httpx_installed w
                        then error_call_message L tool_name alias (KeyError ''url'')
                        else ''Error: httpx not installed. Run: pip install httpx''),
                [audit_line alias tool_name arguments])"
    if k: "map_of kvs ''transport'' = Some (JStr ''sse'')" "map_of kvs ''url'' = None"
      and j: "succeeds (json_loads L arguments) \<and> audit_error w = None"
  proof -
    from j obtain args_dict where "json_loads L arguments = Inr args_dict" "audit_error w = None"
      by (auto elim!: succeedsE)
    from remote_call_of_dispatch [OF assms this dispatch_no_url [OF k]]
    show ?thesis by (simp add: call_message_def)
  qed
  from 1 2 3 4 show ?thesis by blast
qed

theorem missing_key_rejected_witness:
  "registry_servers sample_world = Some sample_servers
   \<and> map_of sample_servers ''nocmd'' = Some (JObj [(''transport'', JStr ''stdio'')])
   \<and> map_of sample_servers ''nourl'' = Some (JObj [(''transport'', JStr ''sse'')])
   \<and> map_of [(''transport'', JStr ''stdio'')] ''transport'' = Some (JStr ''stdio'')
   \<and> map_of [(''transport'', JStr ''stdio'')] ''command'' = None
   \<and> map_of [(''transport'', JStr ''sse'')] ''transport'' = Some (JStr ''sse'')
   \<and> map_of [(''transport'', JStr ''sse'')] ''url'' = None
   \<and> succeeds (json_loads sample_lib ''{}'') \<and> audit_error sample_world = None
   \<and> remote_discover sample_lib sample_world ''nocmd''
       = (Return (error_discover_message sample_lib ''nocmd'' (KeyError ''command'')), [])
   \<and> remote_call sample_lib sample_world ''nocmd'' ''echo'' ''{}''
       = (Return (error_call_message sample_lib ''echo'' ''nocmd'' (KeyError ''command'')),
          [audit_line ''nocmd'' ''echo'' ''{}''])
   \<and> remote_discover sample_lib sample_world ''nourl''
       = (Return (error_discover_message sample_lib ''nourl'' (KeyError ''url'')), [])
   \<and> remote_call sample_lib sample_world ''nourl'' ''echo'' ''{}''
       = (Return (error_call_message sample_lib ''echo'' ''nourl'' (KeyError ''url'')),
          [audit_line ''nourl'' ''echo'' ''{}''])"
proof -
  have r: "registry_servers sample_world = Some sample_servers" by code_simp
  have a1: "map_of sample_servers ''nocmd'' = Some (JObj [(''transport'', JStr ''stdio'')])"
    by code_simp
  have a2: "map_of sample_servers ''nourl'' = Some (JObj [(''transport'', JStr ''sse'')])"
    by code_simp
  have k1: "map_of [(''transport'', JStr ''stdio'')] ''transport'' = Some (JStr ''stdio'')"
    by simp
  have k2: "map_of [(''transport'', JStr ''stdio'')] ''command'' = None" by simp
  have k3: "map_of [(''transport'', JStr ''sse'')] ''transport'' = Some (JStr ''sse'')" by simp
  have k4: "map_of [(''transport'', JStr ''sse'')] ''url'' = None" by simp
  have j: "succeeds (json_loads sample_lib ''{}'') \<and> audit_error sample_world = None"
    by code_simp
  have i: "httpx_installed sample_world" by code_simp
  note w1 = missing_key_rejected [OF r a1, of sample_lib "''{}''" "''echo''", THEN conjunct1]
  note w2 = missing_key_rejected [OF r a2, of sample_lib "''{}''" "''echo''", THEN conjunct2]
  from w1 k1 k2 j
  have n1: "remote_discover sample_lib sample_world ''nocmd''
       = (Return (error_discover_message sample_lib ''nocmd'' (KeyError ''command'')), [])"
    and n2: "remote_call sample_lib sample_world ''nocmd'' ''echo'' ''{}''
       = (Return (error_call_message sample_lib ''echo'' ''nocmd'' (KeyError ''command'')),
          [audit_line ''nocmd'' ''echo'' ''{}''])"
    by blast+
  from w2 k3 k4 j i
  have n3: "remote_discover sample_lib sample_world ''nourl''
       = (Return (error_discover_message sample_lib ''nourl'' (KeyError ''url'')), [])"
    and n4: "remote_call sample_lib sample_world ''nourl'' ''echo'' ''{}''
       = (Return (error_call_message sample_lib ''echo'' ''nourl'' (KeyError ''url'')),
          [audit_line ''nourl'' ''echo'' ''{}''])"
    by simp_all
  from r a1 a2 k1 k2 k3 k4 j n1 n2 n3 n4 show ?thesis by (intro conjI) blast+
qed

section \<open>The authorization header\<close>

lemma auth_headers_value:
  assumes "auth_headers L server = Inr headers"
  shows "headers =
           (case env_token server of
              None \<Rightarrow> []
            | Some tok \<Rightarrow>
                if py_truthy tok then [(''Authorization'', ''Bearer '' @ py_str L tok)] else [])"
proof (cases server)
  case (JObj kvs)
  show ?thesis
  proof (cases "map_of kvs ''env''")
    case None
    with assms JObj show ?thesis
      by (simp add: auth_headers_def env_token_def field_def)
  next
    case (Some env)
    show ?thesis
    proof (cases env)
      case env: (JObj evs)
      with assms JObj Some show ?thesis
        by (cases "map_of evs ''AUTH_TOKEN''")
           (auto simp: auth_headers_def env_token_def field_def split: if_splits)
    qed (use assms JObj Some in \<open>simp_all add: auth_headers_def\<close>)
  qed
qed (use assms in \<open>simp_all add: auth_headers_def\<close>)

text \<open>
  A token that is present but empty sends no header.
\<close>

theorem empty_token_sends_no_header:
  "env_token empty_token_server = Some (JStr [])
   \<and> snd (sse_request sample_lib sample_world empty_token_server ''tools/list'' (JObj [])
            (format_tools sample_lib))
       = [HttpPost ''http://localhost:3001'' [] (request_envelope 1 ''tools/list'' (JObj []))]"
  by code_simp

text \<open>
  Claim C7, as the code has it. The request the remote transport posts carries the
  header \<^verbatim>\<open>Authorization: Bearer <token>\<close> exactly when the \<^verbatim>\<open>env\<close> mapping of the
  descriptor has an \<^verbatim>\<open>AUTH_TOKEN\<close> whose value is truthy; it carries no header when the
  key is absent and also when its value is empty (or null, zero, false).
\<close>

theorem authorization_header_iff_truthy_token:
  assumes "HttpPost url headers body \<in> set (snd (sse_request L w server m p fmt))"
  shows "headers =
           (case env_token server of
              None \<Rightarrow> []
            | Some tok \<Rightarrow>
                if py_truthy tok then [(''Authorization'', ''Bearer '' @ py_str L tok)] else [])
         \<and> ((\<exists>v. (''Authorization'', v) \<in> set headers)
              \<longleftrightarrow> (\<exists>tok. env_token server = Some tok \<and> py_truthy tok))"
proof -
  from sse_request_trace [of L w server m p fmt] assms
  have "auth_headers L server = Inr headers" by auto
  from auth_headers_value [OF this] show ?thesis
    by (auto split: option.splits if_splits)
qed

theorem authorization_header_iff_truthy_token_witness:
  "HttpPost ''http://localhost:3001''
       [(''Authorization'', ''Bearer s3cret'')] (request_envelope 1 ''tools/list'' (JObj []))
     \<in> set (snd (sse_request sample_lib sample_world token_server ''tools/list'' (JObj [])
                   (format_tools sample_lib)))
   \<and> (case env_token token_server of
         None \<Rightarrow> []
       | Some tok \<Rightarrow>
           if py_truthy tok then [(''Authorization'', ''Bearer '' @ py_str sample_lib tok)] else [])
       = [(''Authorization'', ''Bearer s3cret'')]
   \<and> ((\<exists>v. (''Authorization'', v) \<in> set [(''Authorization'', ''Bearer s3cret'')])
        \<longleftrightarrow> (\<exists>tok. env_token token_server = Some tok \<and> py_truthy tok))"
proof -
  have h: "HttpPost ''http://localhost:3001''
       [(''Authorization'', ''Bearer s3cret'')] (request_envelope 1 ''tools/list'' (JObj []))
     \<in> set (snd (sse_request sample_lib sample_world token_server ''tools/list'' (JObj [])
                   (format_tools sample_lib)))"
    by code_simp
  note r = authorization_header_iff_truthy_token [OF h]
  from h r [THEN conjunct1, symmetric] r [THEN conjunct2] show ?thesis
    by (intro conjI)
qed

end
